theory Spec2Isabelle
  imports Complex_Main "HOL-Library.Sublist"
begin

section \<open>JavaScript values\<close>

text \<open>
  A value produced by \<^verbatim>\<open>JSON.parse\<close> or carried in a parsed request body. Numbers are
  the finite JavaScript numbers, read as rationals (\<^verbatim>\<open>NaN\<close> is never the result of
  \<^verbatim>\<open>JSON.parse\<close>). An object keeps its members in source order. A property that is
  absent reads as \<^verbatim>\<open>undefined\<close>, modelled as \<open>None\<close>.
\<close>

datatype json =
    JNull
  | JBool bool
  | JNum rat
  | JStr string
  | JArr "json list"
  | JObj "(string \<times> json) list"

text \<open>\<^verbatim>\<open>payload[field]\<close>: the last member of that name wins; not an object: undefined.\<close>

fun js_get :: "json \<Rightarrow> string \<Rightarrow> json option" where
  "js_get (JObj kvs) k = map_of (rev kvs) k"
| "js_get _ k = None"

text \<open>JavaScript truthiness, \<^verbatim>\<open>!!v\<close>.\<close>

fun truthy :: "json \<Rightarrow> bool" where
  "truthy JNull = False"
| "truthy (JBool b) = b"
| "truthy (JNum q) = (q \<noteq> 0)"
| "truthy (JStr s) = (s \<noteq> [])"
| "truthy (JArr _) = True"
| "truthy (JObj _) = True"

text \<open>Truthiness of a possibly undefined value.\<close>

fun truthy_opt :: "json option \<Rightarrow> bool" where
  "truthy_opt None = False"
| "truthy_opt (Some v) = truthy v"

text \<open>\<^verbatim>\<open>Number.isInteger\<close>, used to state what an integer payload field is.\<close>

fun is_integer :: "json option \<Rightarrow> bool" where
  "is_integer (Some (JNum q)) = (of_int \<lfloor>q\<rfloor> = q)"
| "is_integer _ = False"

subsection \<open>\<^verbatim>\<open>parseInt\<close> with no radix argument\<close>

text \<open>
  Strings are byte strings (UTF-8). The white space that \<^verbatim>\<open>parseInt\<close> skips is
  given as the byte sequences of the ECMAScript white space and line terminator code points.
\<close>

definition js_ws_seqs :: "string list" where
  "js_ws_seqs =
    [[CHR 0x09], [CHR 0x0A], [CHR 0x0B], [CHR 0x0C], [CHR 0x0D], [CHR 0x20],
     [CHR 0xC2, CHR 0xA0], [CHR 0xE1, CHR 0x9A, CHR 0x80],
     [CHR 0xE2, CHR 0x80, CHR 0x80], [CHR 0xE2, CHR 0x80, CHR 0x81],
     [CHR 0xE2, CHR 0x80, CHR 0x82], [CHR 0xE2, CHR 0x80, CHR 0x83],
     [CHR 0xE2, CHR 0x80, CHR 0x84], [CHR 0xE2, CHR 0x80, CHR 0x85],
     [CHR 0xE2, CHR 0x80, CHR 0x86], [CHR 0xE2, CHR 0x80, CHR 0x87],
     [CHR 0xE2, CHR 0x80, CHR 0x88], [CHR 0xE2, CHR 0x80, CHR 0x89],
     [CHR 0xE2, CHR 0x80, CHR 0x8A], [CHR 0xE2, CHR 0x80, CHR 0xA8],
     [CHR 0xE2, CHR 0x80, CHR 0xA9], [CHR 0xE2, CHR 0x80, CHR 0xAF],
     [CHR 0xE2, CHR 0x81, CHR 0x9F], [CHR 0xE3, CHR 0x80, CHR 0x80],
     [CHR 0xEF, CHR 0xBB, CHR 0xBF]]"

definition strip_ws1 :: "string \<Rightarrow> string option" where
  "strip_ws1 s =
     (case find (\<lambda>w. prefix w s) js_ws_seqs of
        None \<Rightarrow> None
      | Some w \<Rightarrow> Some (drop (length w) s))"

function trim_start :: "string \<Rightarrow> string" where
  "trim_start s = (case strip_ws1 s of None \<Rightarrow> s | Some r \<Rightarrow> trim_start r)"
  by pat_completeness auto
termination
proof (relation "measure length")
  show "wf (measure length)" by simp
next
  fix s r :: string
  assume a: "strip_ws1 s = Some r"
  then obtain w where w: "find (\<lambda>w. prefix w s) js_ws_seqs = Some w"
      and r: "r = drop (length w) s"
    by (auto simp: strip_ws1_def split: option.splits)
  from w have "w \<in> set js_ws_seqs" and p: "prefix w s"
    by (auto simp: find_Some_iff)
  then have "w \<noteq> []" by (auto simp: js_ws_seqs_def)
  then have "Suc 0 \<le> length w" by (cases w) simp_all
  moreover from p have "length w \<le> length s" by (auto simp: prefix_def)
  ultimately have "length s - length w < length s" by linarith
  with r have "length r < length s" by simp
  then show "(r, s) \<in> measure length" by simp
qed

declare trim_start.simps [simp del]

text \<open>\<^verbatim>\<open>String.prototype.trim\<close>: the same white space, removed at both ends.\<close>

definition strip_ws1_end :: "string \<Rightarrow> string option" where
  "strip_ws1_end s =
     (case find (\<lambda>w. suffix w s) js_ws_seqs of
        None \<Rightarrow> None
      | Some w \<Rightarrow> Some (take (length s - length w) s))"

function trim_end :: "string \<Rightarrow> string" where
  "trim_end s = (case strip_ws1_end s of None \<Rightarrow> s | Some r \<Rightarrow> trim_end r)"
  by pat_completeness auto
termination
proof (relation "measure length")
  show "wf (measure length)" by simp
next
  fix s r :: string
  assume a: "strip_ws1_end s = Some r"
  then obtain w where w: "find (\<lambda>w. suffix w s) js_ws_seqs = Some w"
      and r: "r = take (length s - length w) s"
    by (auto simp: strip_ws1_end_def split: option.splits)
  from w have "w \<in> set js_ws_seqs" and p: "suffix w s"
    by (auto simp: find_Some_iff)
  then have "w \<noteq> []" by (auto simp: js_ws_seqs_def)
  then have "Suc 0 \<le> length w" by (cases w) simp_all
  moreover from p have "length w \<le> length s" by (auto simp: suffix_def)
  ultimately have "length s - length w < length s" by linarith
  with r have "length r < length s" by simp
  then show "(r, s) \<in> measure length" by simp
qed

declare trim_end.simps [simp del]

definition js_trim :: "string \<Rightarrow> string" where
  "js_trim s = trim_end (trim_start s)"

definition digit_val :: "char \<Rightarrow> nat option" where
  "digit_val c =
     (let n = (of_char c :: nat) in
      if 48 \<le> n \<and> n \<le> 57 then Some (n - 48)
      else if 97 \<le> n \<and> n \<le> 102 then Some (n - 87)
      else if 65 \<le> n \<and> n \<le> 70 then Some (n - 55)
      else None)"

definition is_digit :: "nat \<Rightarrow> char \<Rightarrow> bool" where
  "is_digit R c = (case digit_val c of None \<Rightarrow> False | Some v \<Rightarrow> v < R)"

definition digits_value :: "nat \<Rightarrow> string \<Rightarrow> int" where
  "digits_value R ds =
     foldl (\<lambda>acc c. acc * int R + (case digit_val c of None \<Rightarrow> 0 | Some v \<Rightarrow> int v)) 0 ds"

text \<open>
  \<^verbatim>\<open>parseInt(s)\<close>: skip white space, read a sign, switch to radix 16 after
  \<^verbatim>\<open>0x\<close>, read the longest run of digits; no digit gives \<^verbatim>\<open>NaN\<close> (\<open>None\<close>).
  An undefined argument is the string \<^verbatim>\<open>undefined\<close>, which has no digit.
\<close>

definition parseInt :: "string option \<Rightarrow> int option" where
  "parseInt a =
     (case a of
        None \<Rightarrow> None
      | Some inputString \<Rightarrow>
          (let S = trim_start inputString;
               sign = (if S \<noteq> [] \<and> hd S = CHR ''-'' then - 1 else 1 :: int);
               S1 = (if S \<noteq> [] \<and> (hd S = CHR ''+'' \<or> hd S = CHR ''-'') then tl S else S);
               hex = (take 2 S1 = ''0x'' \<or> take 2 S1 = ''0X'');
               R = (if hex then 16 else 10 :: nat);
               S2 = (if hex then drop 2 S1 else S1);
               Z = takeWhile (is_digit R) S2
           in if Z = [] then None else Some (sign * digits_value R Z)))"

text \<open>\<^verbatim>\<open>parseInt(x) || dflt\<close>: \<^verbatim>\<open>NaN\<close> and \<open>0\<close> are falsy.\<close>

definition or_default :: "int option \<Rightarrow> int \<Rightarrow> int" where
  "or_default n dflt = (case n of None \<Rightarrow> dflt | Some v \<Rightarrow> if v = 0 then dflt else v)"

section \<open>QR payload validation (\<^verbatim>\<open>utils/crypto.js\<close>)\<close>

text \<open>
  The result \<^verbatim>\<open>{ valid, error }\<close> of \<^verbatim>\<open>validatePayload\<close>. The reason keeps the
  interpolated value of \<^verbatim>\<open>Invalid action: ${payload.action}\<close> as a value.
\<close>

datatype reason =
    EmptyPayload
  | MissingField string
  | InvalidActionValue json
  | UniqueCodeNotNumber

datatype validation = Valid | Invalid reason

definition requiredFields :: "string list" where
  "requiredFields = [''deviceId'', ''type'', ''action'', ''uniqueCode'']"

definition field_missing :: "json \<Rightarrow> string \<Rightarrow> bool" where
  "field_missing payload field = (js_get payload field = None \<or> js_get payload field = Some JNull)"

definition action_in_enum :: "json option \<Rightarrow> bool" where
  "action_in_enum a = (a = Some (JStr ''SCAN'') \<or> a = Some (JStr ''REGISTER''))"

fun is_number :: "json option \<Rightarrow> bool" where
  "is_number (Some (JNum q)) = True"
| "is_number _ = False"

definition validatePayload :: "json \<Rightarrow> validation" where
  "validatePayload payload =
     (if \<not> truthy payload then Invalid EmptyPayload
      else case find (field_missing payload) requiredFields of
             Some field \<Rightarrow> Invalid (MissingField field)
           | None \<Rightarrow>
               if \<not> action_in_enum (js_get payload ''action'')
               then (case js_get payload ''action'' of
                       Some a \<Rightarrow> Invalid (InvalidActionValue a)
                     | None \<Rightarrow> Invalid (MissingField ''action''))
               else if \<not> is_number (js_get payload ''uniqueCode'') then Invalid UniqueCodeNotNumber
               else Valid)"

text \<open>The \<^verbatim>\<open>error\<close> string of a rejection; \<open>show\<close> renders the interpolated value.\<close>

fun reason_text :: "(json \<Rightarrow> string) \<Rightarrow> reason \<Rightarrow> string" where
  "reason_text show EmptyPayload = ''Empty payload''"
| "reason_text show (MissingField f) = ''Missing field: '' @ f"
| "reason_text show (InvalidActionValue a) = ''Invalid action: '' @ show a"
| "reason_text show UniqueCodeNotNumber = ''uniqueCode must be a number''"

section \<open>Dates\<close>

text \<open>
  An instant is a number of milliseconds since the epoch. The \<^verbatim>\<open>Date\<close> operations that
  depend on the parser or on the server's local time zone are taken from outside:
  \<^item> \<open>cal_newDate\<close>: \<^verbatim>\<open>new Date(string)\<close>, \<open>None\<close> for an invalid date;
  \<^item> \<open>cal_minusDays t n\<close>: \<^verbatim>\<open>d.setDate(d.getDate() - n)\<close> on the date \<open>t\<close>;
  \<^item> \<open>cal_endOfDay\<close>: \<^verbatim>\<open>d.setHours(23, 59, 59, 999)\<close>.
  The UTC operations are computed.
\<close>

record calendar =
  cal_newDate :: "string \<Rightarrow> int option"
  cal_minusDays :: "int \<Rightarrow> int \<Rightarrow> int"
  cal_endOfDay :: "int \<Rightarrow> int"

definition ms_per_day :: int where
  "ms_per_day = 86400000"

definition utc_day :: "int \<Rightarrow> int" where
  "utc_day t = t - t mod ms_per_day"

definition utc_hour :: "int \<Rightarrow> int" where
  "utc_hour t = (t mod ms_per_day) div 3600000"

section \<open>Archive documents and the archive queries\<close>

text \<open>
  Identifiers are strings, point and event counts are integers. A field that may be absent
  is an option.
\<close>

record timeline_entry =
  t_hour :: int
  t_type :: string
  t_deviceType :: "string option"
  t_count :: int
  t_points :: int
  t_userIds :: "string list"

record day_stats =
  totalPoints :: int
  totalActivities :: int
  activeUsersCount :: nat

record archive_doc =
  ar_workspaceId :: string
  ar_date :: int
  ar_stats :: day_stats
  ar_timeline :: "timeline_entry list"

record archived_stats =
  as_days :: int
  as_totalPoints :: int
  as_totalActivities :: int
  as_uniqueUsers :: nat
  as_dailyBreakdown :: "(int \<times> int \<times> int \<times> nat) list"

text \<open>
  \<^verbatim>\<open>getArchivedStats\<close> of \<^verbatim>\<open>services/activityArchiveService.js\<close>; \<open>now\<close> is the
  clock and \<open>coll\<close> the archive documents, which are read and never written.
\<close>

definition getArchivedStats ::
  "calendar \<Rightarrow> int \<Rightarrow> archive_doc list \<Rightarrow> string \<Rightarrow> int \<Rightarrow> archived_stats" where
  "getArchivedStats cal now coll workspaceId days =
     (let startDate = utc_day (cal_minusDays cal now days);
          archives = sort_key (\<lambda>d. - ar_date d)
             (filter (\<lambda>d. ar_workspaceId d = workspaceId \<and> startDate \<le> ar_date d) coll)
      in \<lparr> as_days = days,
           as_totalPoints = sum_list (map (\<lambda>d. totalPoints (ar_stats d)) archives),
           as_totalActivities = sum_list (map (\<lambda>d. totalActivities (ar_stats d)) archives),
           as_uniqueUsers =
             length (remdups (concat (map (\<lambda>d. concat (map t_userIds (ar_timeline d))) archives))),
           as_dailyBreakdown =
             map (\<lambda>d. (ar_date d, totalPoints (ar_stats d), totalActivities (ar_stats d),
                        activeUsersCount (ar_stats d))) archives \<rparr>)"

text \<open>\<^verbatim>\<open>getActivityTypeBreakdown\<close>: per type, the summed count and points.\<close>

definition add_type_stat ::
  "(string \<rightharpoonup> int \<times> int) \<Rightarrow> timeline_entry \<Rightarrow> (string \<rightharpoonup> int \<times> int)" where
  "add_type_stat typeStats t =
     (let cur = (case typeStats (t_type t) of None \<Rightarrow> (0, 0) | Some cp \<Rightarrow> cp)
      in typeStats(t_type t \<mapsto> (fst cur + t_count t, snd cur + t_points t)))"

definition getActivityTypeBreakdown ::
  "calendar \<Rightarrow> int \<Rightarrow> archive_doc list \<Rightarrow> string \<Rightarrow> int \<Rightarrow> (string \<rightharpoonup> int \<times> int)" where
  "getActivityTypeBreakdown cal now coll workspaceId days =
     (let startDate = utc_day (cal_minusDays cal now days);
          archives = filter (\<lambda>d. ar_workspaceId d = workspaceId \<and> startDate \<le> ar_date d) coll
      in foldl add_type_stat Map.empty (concat (map ar_timeline archives)))"

text \<open>
  The two admin handlers of \<^verbatim>\<open>controllers/deviceController.js\<close>. The last argument is
  \<^verbatim>\<open>req.query.days\<close>, absent or a string. An error is the status, the code and the
  message of the response.
\<close>

type_synonym api_error = "nat \<times> string \<times> string"

definition invalid_days :: api_error where
  "invalid_days = (400, ''INVALID_DAYS'', ''days must be between 1 and 365'')"

definition getWorkspaceArchiveStats ::
  "calendar \<Rightarrow> int \<Rightarrow> archive_doc list \<Rightarrow> string \<Rightarrow> string option
     \<Rightarrow> api_error + archived_stats" where
  "getWorkspaceArchiveStats cal now coll workspaceId query_days =
     (let days = or_default (parseInt query_days) 7
      in if days < 1 \<or> days > 365 then Inl invalid_days
         else Inr (getArchivedStats cal now coll workspaceId days))"

definition getWorkspaceTypeBreakdown ::
  "calendar \<Rightarrow> int \<Rightarrow> archive_doc list \<Rightarrow> string \<Rightarrow> string option
     \<Rightarrow> api_error + (int \<times> (string \<rightharpoonup> int \<times> int))" where
  "getWorkspaceTypeBreakdown cal now coll workspaceId query_days =
     (let days = or_default (parseInt query_days) 30
      in if days < 1 \<or> days > 365 then Inl invalid_days
         else Inr (days, getActivityTypeBreakdown cal now coll workspaceId days))"

section \<open>The document store\<close>

text \<open>
  The collections the scan and activity handlers touch, each a list in the store's natural
  order; \<^verbatim>\<open>findOne\<close> returns the first match. Route and caller identifiers are
  ObjectIds already, written as lower-case hexadecimal strings.
\<close>

record device =
  dev_id :: string
  dev_deviceId :: "string option"
  dev_name :: string
  dev_type :: string
  dev_workspaceId :: string
  dev_lastUniqueCode :: "rat option"

record member =
  mem_id :: string
  mem_userId :: string
  mem_workspaceId :: string
  mem_points :: int
  mem_scanCount :: int
  mem_joinedDate :: int

record user =
  usr_id :: string
  usr_points :: int
  usr_scanCount :: int

record workspace =
  ws_id :: string
  ws_name :: string

record activity =
  act_id :: string
  act_workspaceId :: string
  act_userId :: string
  act_deviceId :: "string option"
  act_deviceType :: "string option"
  act_type :: string
  act_title :: string
  act_description :: string
  act_points :: int
  act_timestamp :: string
  act_createdAt :: int

record store =
  devices :: "device list"
  members :: "member list"
  users :: "user list"
  workspaces :: "workspace list"
  activities :: "activity list"

text \<open>
  What a handler takes from outside the repository's code:
  \<^item> \<open>rt_decrypt\<close>: the body of \<^verbatim>\<open>decryptQRPayload\<close> (Base64, AES-128-CBC,
    \<^verbatim>\<open>JSON.parse\<close>); \<open>None\<close> is the \<^verbatim>\<open>null\<close> of a short buffer or a caught exception;
  \<^item> \<open>rt_filter\<close>: the predicate on a stored \<^verbatim>\<open>deviceId\<close> that the store evaluates for
    a filter value that is not a string, \<open>None\<close> when building the query throws;
  \<^item> \<open>rt_cast\<close>: the schema's cast to a string of a value that is not one, \<open>None\<close>
    when the cast fails;
  \<^item> \<open>rt_now\<close>, \<open>rt_nowString\<close>: the clock, as an instant and as \<^verbatim>\<open>new Date().toString()\<close>;
  \<^item> \<open>rt_newId\<close>: the identifier given to the next inserted document;
  \<^item> \<open>rt_round\<close>: the number that a JavaScript addition yields when the exact sum is
    beyond \<open>2 ^ 53\<close> in magnitude.
\<close>

record runtime =
  rt_decrypt :: "json \<Rightarrow> json option"
  rt_filter :: "json option \<Rightarrow> (string option \<Rightarrow> bool) option"
  rt_cast :: "json \<Rightarrow> string option"
  rt_now :: int
  rt_nowString :: string
  rt_newId :: string
  rt_round :: "int \<Rightarrow> int"

definition decryptQRPayload :: "runtime \<Rightarrow> json \<Rightarrow> json option" where
  "decryptQRPayload rt encryptedBase64 = rt_decrypt rt encryptedBase64"

text \<open>
  The filter \<^verbatim>\<open>{ deviceId: v }\<close> as a predicate on the stored field. The schema
  declares \<^verbatim>\<open>deviceId\<close> with \<^verbatim>\<open>trim: true\<close>, and the setter is applied to a string
  of a query filter as well.
\<close>

definition deviceId_filter :: "runtime \<Rightarrow> json option \<Rightarrow> (string option \<Rightarrow> bool) option" where
  "deviceId_filter rt v =
     (case v of Some (JStr s) \<Rightarrow> Some (\<lambda>x. x = Some (js_trim s)) | _ \<Rightarrow> rt_filter rt v)"

definition cast_string :: "runtime \<Rightarrow> json \<Rightarrow> string option" where
  "cast_string rt v = (case v of JStr s \<Rightarrow> Some s | _ \<Rightarrow> rt_cast rt v)"

text \<open>\<^verbatim>\<open>/^[0-9a-fA-F]{24}$/\<close> and the ObjectId a matching string denotes.\<close>

definition is_hex24 :: "string \<Rightarrow> bool" where
  "is_hex24 s = (length s = 24 \<and> list_all (is_digit 16) s)"

definition hex_lower :: "char \<Rightarrow> char" where
  "hex_lower c =
     (let n = (of_char c :: nat) in if 65 \<le> n \<and> n \<le> 70 then char_of (n + 32) else c)"

definition objectId :: "string \<Rightarrow> string" where
  "objectId s = map hex_lower s"

text \<open>
  \<^verbatim>\<open>finalDeviceId.match(/^[0-9a-fA-F]{24}$/)\<close>: only a string has \<^verbatim>\<open>match\<close>; on any
  other value the call throws (\<open>None\<close>). A match gives the ObjectId to look up.
\<close>

definition match_objectId :: "json option \<Rightarrow> string option option" where
  "match_objectId v =
     (case v of
        Some (JStr s) \<Rightarrow> Some (if is_hex24 s then Some (objectId s) else None)
      | _ \<Rightarrow> None)"

text \<open>\<^verbatim>\<open>device.lastUniqueCode || 0\<close>\<close>

definition or_zero :: "rat option \<Rightarrow> rat" where
  "or_zero x = (case x of None \<Rightarrow> 0 | Some q \<Rightarrow> q)"

text \<open>\<^verbatim>\<open>str.replace('_', ' ')\<close>: the first underscore only.\<close>

fun replace_first_underscore :: "string \<Rightarrow> string" where
  "replace_first_underscore [] = []"
| "replace_first_underscore (c # cs) =
     (if c = CHR ''_'' then CHR '' '' # cs else c # replace_first_underscore cs)"

text \<open>The separator of the description, a bullet (U+2022 in UTF-8) between two spaces.\<close>

definition bullet :: string where
  "bullet = [CHR '' '', CHR 0xE2, CHR 0x80, CHR 0xA2, CHR '' '']"

section \<open>The scan handlers (\<^verbatim>\<open>controllers/scanController.js\<close>)\<close>

text \<open>
  Every early \<^verbatim>\<open>return res.status(...).json(...)\<close> is a failure; \<open>ServerError\<close> is the
  \<^verbatim>\<open>catch\<close> block (status 500). A failure keeps the values its texts interpolate.
\<close>

datatype failure =
    MissingPayload
  | DecryptionFailed
  | InvalidPayload reason
  | MissingAction
  | InvalidAction "json option"
  | InvalidActionForPoints "json option"
  | NotAMemberOfDeviceWorkspace "string option"
  | NotAMember
  | WorkspaceMismatch string "string option" bool
  | DeviceNotFoundAnywhere
  | DeviceNotFound
  | ReplayDetected
  | UserNotFound
  | ServerError

record scan_data =
  sd_pointsEarned :: int
  sd_workspacePoints :: int
  sd_totalPoints :: int
  sd_scanCount :: int
  sd_activityId :: string
  sd_activityType :: string
  sd_activityTitle :: string
  sd_activityTimestamp :: string

datatype response = Fail failure | Success scan_data

fun http_status :: "failure \<Rightarrow> nat" where
  "http_status MissingPayload = 400"
| "http_status DecryptionFailed = 400"
| "http_status (InvalidPayload r) = 400"
| "http_status MissingAction = 400"
| "http_status (InvalidAction a) = 400"
| "http_status (InvalidActionForPoints a) = 400"
| "http_status (NotAMemberOfDeviceWorkspace n) = 403"
| "http_status NotAMember = 403"
| "http_status (WorkspaceMismatch w n m) = 403"
| "http_status DeviceNotFoundAnywhere = 404"
| "http_status DeviceNotFound = 404"
| "http_status ReplayDetected = 400"
| "http_status UserNotFound = 404"
| "http_status ServerError = 500"

text \<open>
  The \<^verbatim>\<open>error\<close> and \<^verbatim>\<open>message\<close> fields of a failure response; \<open>show\<close> renders an
  interpolated value. The message of the \<^verbatim>\<open>catch\<close> block is the text of the exception,
  which the model does not carry; \<^verbatim>\<open>User not found\<close> has no message.
\<close>

fun error_text :: "(json option \<Rightarrow> string) \<Rightarrow> failure \<Rightarrow> string" where
  "error_text show MissingPayload = ''Missing encrypted payload''"
| "error_text show DecryptionFailed = ''Decryption failed''"
| "error_text show (InvalidPayload r) = ''Invalid payload''"
| "error_text show MissingAction = ''Missing action field''"
| "error_text show (InvalidAction a) = ''Invalid action \"'' @ show a @ ''\"''"
| "error_text show (InvalidActionForPoints a) =
     ''Invalid action for earning points. Got \"'' @ show a @ ''\"''"
| "error_text show (NotAMemberOfDeviceWorkspace n) = ''Not a member of this workspace''"
| "error_text show NotAMember = ''Not a member of this workspace''"
| "error_text show (WorkspaceMismatch w n m) = ''Workspace mismatch''"
| "error_text show DeviceNotFoundAnywhere = ''Device not recognized''"
| "error_text show DeviceNotFound = ''Device not recognized''"
| "error_text show ReplayDetected = ''QR code sudah dipakai''"
| "error_text show UserNotFound = ''User not found''"
| "error_text show ServerError = ''Failed to process scan''"

fun message_text :: "(json option \<Rightarrow> string) \<Rightarrow> failure \<Rightarrow> string option" where
  "message_text show MissingPayload =
     Some ''QR code ini tidak valid. Gunakan QR code yang telah dienkripsi.''"
| "message_text show DecryptionFailed =
     Some ''Invalid or corrupted QR code. Please try scanning again.''"
| "message_text show (InvalidPayload r) = Some (reason_text (\<lambda>v. show (Some v)) r)"
| "message_text show MissingAction = Some ''QR code must contain an action field''"
| "message_text show (InvalidAction a) = Some ''Action must be SCAN or REGISTER''"
| "message_text show (InvalidActionForPoints a) =
     Some ''This QR code is for device registration. Please use the Add Device feature.''"
| "message_text show (NotAMemberOfDeviceWorkspace n) =
     Some (''Perangkat ini milik workspace \"''
           @ (case n of None \<Rightarrow> ''Unknown'' | Some x \<Rightarrow> if x = [] then ''Unknown'' else x)
           @ ''\", tapi Anda bukan anggotanya.'')"
| "message_text show NotAMember =
     Some ''You must be a member of this workspace to scan devices''"
| "message_text show (WorkspaceMismatch w n m) =
     Some ''This device belongs to a different workspace''"
| "message_text show DeviceNotFoundAnywhere = Some ''Perangkat ini tidak terdaftar di sistem.''"
| "message_text show DeviceNotFound =
     Some ''Perangkat ini tidak terdaftar di workspace Anda.''"
| "message_text show ReplayDetected =
     Some ''QR code ini sudah pernah di-scan. Tunggu QR code baru dari mesin.''"
| "message_text show UserNotFound = None"
| "message_text show ServerError = None"

subsection \<open>Numbers and schema validation\<close>

text \<open>
  The counters are integers held as JavaScript numbers: \<^verbatim>\<open>a + b\<close> is the exact sum while
  that is at most \<open>2 ^ 53\<close> in magnitude, and the rounded sum beyond.
\<close>

definition js_plus :: "runtime \<Rightarrow> int \<Rightarrow> int \<Rightarrow> int" where
  "js_plus rt a b = (if \<bar>a + b\<bar> \<le> 2 ^ 53 then a + b else rt_round rt (a + b))"

text \<open>
  \<^verbatim>\<open>doc.save()\<close> validates the required and the modified paths of the document and
  rejects, without writing, when a validator fails. Of \<^verbatim>\<open>models/WorkspaceMember.js\<close>:
  \<^verbatim>\<open>points\<close> and \<^verbatim>\<open>scanCount\<close> have \<^verbatim>\<open>min: 0\<close>. Of \<^verbatim>\<open>models/Device.js\<close>:
  \<^verbatim>\<open>name\<close> is required, \<^verbatim>\<open>type\<close> is required and of the enumeration. The user schema
  has no validator on \<^verbatim>\<open>points\<close> and \<^verbatim>\<open>scanCount\<close>. The stored fields that the records
  do not hold are taken to satisfy their schema.
\<close>

definition valid_member :: "member \<Rightarrow> bool" where
  "valid_member m = (0 \<le> mem_points m \<and> 0 \<le> mem_scanCount m)"

definition device_types :: "string list" where
  "device_types = [''SMART_BIN'', ''SMART_LAMP'', ''ACCESS_CONTROL'', ''RFID_READER'', ''GENERIC'']"

definition valid_device :: "device \<Rightarrow> bool" where
  "valid_device d = (dev_name d \<noteq> [] \<and> dev_type d \<in> set device_types)"

subsection \<open>Store operations of the handlers\<close>

definition find_membership :: "store \<Rightarrow> string \<Rightarrow> string \<Rightarrow> member option" where
  "find_membership s workspaceId userId =
     find (\<lambda>m. mem_workspaceId m = workspaceId \<and> mem_userId m = userId) (members s)"

definition find_user :: "store \<Rightarrow> string \<Rightarrow> user option" where
  "find_user s userId = find (\<lambda>u. usr_id u = userId) (users s)"

definition find_workspace :: "store \<Rightarrow> string \<Rightarrow> workspace option" where
  "find_workspace s workspaceId = find (\<lambda>w. ws_id w = workspaceId) (workspaces s)"

text \<open>\<^verbatim>\<open>doc.save()\<close> writes the modified paths of the document with that \<^verbatim>\<open>_id\<close>.\<close>

definition save_lastUniqueCode :: "device \<Rightarrow> rat \<Rightarrow> store \<Rightarrow> store" where
  "save_lastUniqueCode device q s =
     s\<lparr>devices := map (\<lambda>d. if dev_id d = dev_id device
                               then d\<lparr>dev_lastUniqueCode := Some q\<rparr> else d) (devices s)\<rparr>"

definition save_member :: "member \<Rightarrow> store \<Rightarrow> store" where
  "save_member m s =
     s\<lparr>members := map (\<lambda>x. if mem_id x = mem_id m
                               then x\<lparr>mem_points := mem_points m, mem_scanCount := mem_scanCount m\<rparr>
                               else x) (members s)\<rparr>"

definition save_user :: "user \<Rightarrow> store \<Rightarrow> store" where
  "save_user u s =
     s\<lparr>users := map (\<lambda>x. if usr_id x = usr_id u
                             then x\<lparr>usr_points := usr_points u, usr_scanCount := usr_scanCount u\<rparr>
                             else x) (users s)\<rparr>"

text \<open>The document of \<^verbatim>\<open>Activity.create\<close> in both handlers.\<close>

definition scan_activity :: "runtime \<Rightarrow> string \<Rightarrow> string \<Rightarrow> device \<Rightarrow> string \<Rightarrow> activity" where
  "scan_activity rt workspaceId userId device deviceType =
     \<lparr> act_id = rt_newId rt,
       act_workspaceId = workspaceId,
       act_userId = userId,
       act_deviceId = Some (dev_id device),
       act_deviceType = Some deviceType,
       act_type = ''SCAN'',
       act_title = ''Waste Scanned'',
       act_description = dev_name device @ bullet @ replace_first_underscore (dev_type device),
       act_points = 10,
       act_timestamp = rt_nowString rt,
       act_createdAt = rt_now rt \<rparr>"

text \<open>\<^verbatim>\<open>finalType || device.type\<close>, cast by the schema to a string.\<close>

definition activity_deviceType :: "runtime \<Rightarrow> json option \<Rightarrow> device \<Rightarrow> string option" where
  "activity_deviceType rt finalType device =
     (case finalType of
        None \<Rightarrow> Some (dev_type device)
      | Some v \<Rightarrow> if truthy v then cast_string rt v else Some (dev_type device))"

text \<open>
  The replay block, the same text in both handlers. \<open>uniqueCode\<close> is
  \<^verbatim>\<open>payload.uniqueCode\<close>, undefined also when there is no payload. A payload that passed
  \<open>validatePayload\<close> has a number there, so the last case is not reached. A
  \<^verbatim>\<open>device.save()\<close> that fails validation throws, and nothing is written.
\<close>

definition replay_protection :: "json option \<Rightarrow> device \<Rightarrow> store \<Rightarrow> failure + store" where
  "replay_protection uniqueCode device s =
     (case uniqueCode of
        None \<Rightarrow> Inr s
      | Some (JNum newUniqueCode) \<Rightarrow>
          (let lastUniqueCode = or_zero (dev_lastUniqueCode device)
           in if newUniqueCode \<le> lastUniqueCode then Inl ReplayDetected
              else if valid_device (device\<lparr>dev_lastUniqueCode := Some newUniqueCode\<rparr>)
                then Inr (save_lastUniqueCode device newUniqueCode s)
              else Inl ServerError)
      | Some _ \<Rightarrow> Inl ServerError)"

subsection \<open>\<^verbatim>\<open>scanDeviceGlobal\<close>\<close>

text \<open>Device lookup across all workspaces, then by \<^verbatim>\<open>_id\<close> for a 24-digit value.\<close>

definition resolve_device_global :: "runtime \<Rightarrow> store \<Rightarrow> json option \<Rightarrow> failure + device option" where
  "resolve_device_global rt s finalDeviceId =
     (case deviceId_filter rt finalDeviceId of
        None \<Rightarrow> Inl ServerError
      | Some P \<Rightarrow>
          (case find (\<lambda>d. P (dev_deviceId d)) (devices s) of
             Some device \<Rightarrow> Inr (Some device)
           | None \<Rightarrow>
               (case match_objectId finalDeviceId of
                  None \<Rightarrow> Inl ServerError
                | Some None \<Rightarrow> Inr None
                | Some (Some oid) \<Rightarrow> Inr (find (\<lambda>d. dev_id d = oid) (devices s)))))"

text \<open>
  Points, counters and the activity. The two saves and \<^verbatim>\<open>Activity.create\<close> are started
  together and awaited with \<^verbatim>\<open>Promise.all\<close>: each is written or not on its own, and the
  response is the success only when none of them rejects.
\<close>

definition award_global ::
  "runtime \<Rightarrow> store \<Rightarrow> string \<Rightarrow> member \<Rightarrow> device \<Rightarrow> json option \<Rightarrow> response \<times> store" where
  "award_global rt s userId membership device finalType =
     (let membership' = membership\<lparr>mem_points := js_plus rt (mem_points membership) 10,
                                    mem_scanCount := js_plus rt (mem_scanCount membership) 1\<rparr>;
          user' = map_option (\<lambda>u. u\<lparr>usr_points := js_plus rt (usr_points u) 10,
                                      usr_scanCount := js_plus rt (usr_scanCount u) 1\<rparr>)
                    (find_user s userId);
          saved = valid_member membership';
          s1 = (if saved then save_member membership' s else s);
          s2 = (case user' of None \<Rightarrow> s1 | Some u \<Rightarrow> save_user u s1)
      in case activity_deviceType rt finalType device of
           None \<Rightarrow> (Fail ServerError, s2)
         | Some deviceType \<Rightarrow>
             (let activity = scan_activity rt (dev_workspaceId device) userId device deviceType;
                  s3 = s2\<lparr>activities := activities s2 @ [activity]\<rparr>
              in if \<not> saved then (Fail ServerError, s3)
                 else
                 (Success \<lparr> sd_pointsEarned = 10,
                             sd_workspacePoints = mem_points membership',
                             sd_totalPoints =
                               (case user' of
                                  None \<Rightarrow> mem_points membership'
                                | Some u \<Rightarrow> if usr_points u = 0 then mem_points membership'
                                            else usr_points u),
                             sd_scanCount = mem_scanCount membership',
                             sd_activityId = act_id activity,
                             sd_activityType = act_type activity,
                             sd_activityTitle = act_title activity,
                             sd_activityTimestamp = act_timestamp activity \<rparr>,
                  s3)))"

text \<open>
  Before its first check the handler logs \<^verbatim>\<open>encryptedPayload?.substring(0, 50)\<close>, which
  throws for every value other than \<^verbatim>\<open>undefined\<close>, \<^verbatim>\<open>null\<close> and a string.
\<close>

definition scanDeviceGlobal :: "runtime \<Rightarrow> store \<Rightarrow> string \<Rightarrow> json option \<Rightarrow> response \<times> store" where
  "scanDeviceGlobal rt s userId encryptedPayload =
     (case encryptedPayload of
        None \<Rightarrow> (Fail MissingPayload, s)
      | Some JNull \<Rightarrow> (Fail MissingPayload, s)
      | Some (JStr e) \<Rightarrow>
     (if e = [] then (Fail MissingPayload, s)
      else
     (case decryptQRPayload rt (JStr e) of
        None \<Rightarrow> (Fail DecryptionFailed, s)
      | Some payload \<Rightarrow>
     (if \<not> truthy payload then (Fail DecryptionFailed, s)
      else
     (case validatePayload payload of
        Invalid r \<Rightarrow> (Fail (InvalidPayload r), s)
      | Valid \<Rightarrow>
     (let finalDeviceId = js_get payload ''deviceId'';
          finalAction = js_get payload ''action'';
          finalType = js_get payload ''type''
      in
     (if finalAction \<noteq> Some (JStr ''SCAN'') then (Fail (InvalidActionForPoints finalAction), s)
      else
     (case resolve_device_global rt s finalDeviceId of
        Inl f \<Rightarrow> (Fail f, s)
      | Inr None \<Rightarrow> (Fail DeviceNotFoundAnywhere, s)
      | Inr (Some device) \<Rightarrow>
     (case find_membership s (dev_workspaceId device) userId of
        None \<Rightarrow>
          (Fail (NotAMemberOfDeviceWorkspace
                   (map_option ws_name (find_workspace s (dev_workspaceId device)))), s)
      | Some membership \<Rightarrow>
     (case replay_protection (js_get payload ''uniqueCode'') device s of
        Inl f \<Rightarrow> (Fail f, s)
      | Inr s1 \<Rightarrow> award_global rt s1 userId membership device finalType)))))))))
      | Some _ \<Rightarrow> (Fail ServerError, s))"

subsection \<open>\<^verbatim>\<open>scanDevice\<close>\<close>

record scan_request =
  rq_encryptedPayload :: "json option"
  rq_deviceId :: "json option"
  rq_action :: "json option"
  rq_type :: "json option"
  rq_workspaceId :: string
  rq_userId :: string

text \<open>
  The first block: the decrypted and validated payload, or the plain fields of the body.
  The result is \<^verbatim>\<open>payload\<close>, \<^verbatim>\<open>finalDeviceId\<close>, \<^verbatim>\<open>finalAction\<close> and
  \<^verbatim>\<open>finalType\<close>.
\<close>

definition decode ::
  "runtime \<Rightarrow> scan_request \<Rightarrow> failure + (json option \<times> json option \<times> json option \<times> json option)" where
  "decode rt rq =
     (if truthy_opt (rq_encryptedPayload rq) then
        (case rq_encryptedPayload rq of
           None \<Rightarrow> Inl ServerError
         | Some e \<Rightarrow>
        (case decryptQRPayload rt e of
           None \<Rightarrow> Inl DecryptionFailed
         | Some payload \<Rightarrow>
        (if \<not> truthy payload then Inl DecryptionFailed
         else
        (case validatePayload payload of
           Invalid r \<Rightarrow> Inl (InvalidPayload r)
         | Valid \<Rightarrow>
             Inr (Some payload, js_get payload ''deviceId'', js_get payload ''action'',
                  js_get payload ''type'')))))
      else Inr (None, rq_deviceId rq, rq_action rq, rq_type rq))"

text \<open>
  Device lookup inside the requested workspace, then by \<^verbatim>\<open>_id\<close>, then anywhere for the
  mismatch hint.
\<close>

definition resolve_device_scoped ::
  "runtime \<Rightarrow> store \<Rightarrow> string \<Rightarrow> string \<Rightarrow> json option \<Rightarrow> failure + device" where
  "resolve_device_scoped rt s workspaceId userId finalDeviceId =
     (case deviceId_filter rt finalDeviceId of
        None \<Rightarrow> Inl ServerError
      | Some P \<Rightarrow>
          (case find (\<lambda>d. P (dev_deviceId d) \<and> dev_workspaceId d = workspaceId) (devices s) of
             Some device \<Rightarrow> Inr device
           | None \<Rightarrow>
               (case match_objectId finalDeviceId of
                  None \<Rightarrow> Inl ServerError
                | Some byId \<Rightarrow>
                    (case (case byId of
                             None \<Rightarrow> None
                           | Some oid \<Rightarrow>
                               find (\<lambda>d. dev_id d = oid \<and> dev_workspaceId d = workspaceId)
                                 (devices s)) of
                       Some device \<Rightarrow> Inr device
                     | None \<Rightarrow>
                         (case find (\<lambda>d. P (dev_deviceId d)) (devices s) of
                            Some deviceElsewhere \<Rightarrow>
                              Inl (WorkspaceMismatch (dev_workspaceId deviceElsewhere)
                                     (map_option ws_name
                                        (find_workspace s (dev_workspaceId deviceElsewhere)))
                                     (find_membership s (dev_workspaceId deviceElsewhere) userId
                                        \<noteq> None))
                          | None \<Rightarrow> Inl DeviceNotFound)))))"

definition award_scoped ::
  "runtime \<Rightarrow> store \<Rightarrow> string \<Rightarrow> string \<Rightarrow> member \<Rightarrow> user \<Rightarrow> device \<Rightarrow> json option
     \<Rightarrow> response \<times> store" where
  "award_scoped rt s workspaceId userId membership user device finalType =
     (let membership' = membership\<lparr>mem_points := js_plus rt (mem_points membership) 10,
                                    mem_scanCount := js_plus rt (mem_scanCount membership) 1\<rparr>;
          user' = user\<lparr>usr_points := js_plus rt (usr_points user) 10,
                        usr_scanCount := js_plus rt (usr_scanCount user) 1\<rparr>;
          saved = valid_member membership';
          s1 = (if saved then save_member membership' s else s);
          s2 = save_user user' s1
      in case activity_deviceType rt finalType device of
           None \<Rightarrow> (Fail ServerError, s2)
         | Some deviceType \<Rightarrow>
             (let activity = scan_activity rt workspaceId userId device deviceType;
                  s3 = s2\<lparr>activities := activities s2 @ [activity]\<rparr>
              in if \<not> saved then (Fail ServerError, s3)
                 else
                 (Success \<lparr> sd_pointsEarned = 10,
                             sd_workspacePoints = mem_points membership',
                             sd_totalPoints = usr_points user',
                             sd_scanCount = mem_scanCount membership',
                             sd_activityId = act_id activity,
                             sd_activityType = act_type activity,
                             sd_activityTitle = act_title activity,
                             sd_activityTimestamp = act_timestamp activity \<rparr>,
                  s3)))"

definition payload_uniqueCode :: "json option \<Rightarrow> json option" where
  "payload_uniqueCode payload = (case payload of None \<Rightarrow> None | Some p \<Rightarrow> js_get p ''uniqueCode'')"

definition scanDevice :: "runtime \<Rightarrow> store \<Rightarrow> scan_request \<Rightarrow> response \<times> store" where
  "scanDevice rt s rq =
     (case decode rt rq of
        Inl f \<Rightarrow> (Fail f, s)
      | Inr (payload, finalDeviceId, finalAction, finalType) \<Rightarrow>
     (if \<not> truthy_opt finalAction then (Fail MissingAction, s)
      else if \<not> action_in_enum finalAction then (Fail (InvalidAction finalAction), s)
      else if finalAction \<noteq> Some (JStr ''SCAN'')
        then (Fail (InvalidActionForPoints finalAction), s)
      else
     (case find_membership s (rq_workspaceId rq) (rq_userId rq) of
        None \<Rightarrow> (Fail NotAMember, s)
      | Some membership \<Rightarrow>
     (case resolve_device_scoped rt s (rq_workspaceId rq) (rq_userId rq) finalDeviceId of
        Inl f \<Rightarrow> (Fail f, s)
      | Inr device \<Rightarrow>
     (case replay_protection (payload_uniqueCode payload) device s of
        Inl f \<Rightarrow> (Fail f, s)
      | Inr s1 \<Rightarrow>
     (case find_user s1 (rq_userId rq) of
        None \<Rightarrow> (Fail UserNotFound, s1)
      | Some user \<Rightarrow>
          award_scoped rt s1 (rq_workspaceId rq) (rq_userId rq) membership user device
            finalType))))))"

section \<open>Activity queries\<close>

subsection \<open>\<^verbatim>\<open>getActivities\<close> (\<^verbatim>\<open>controllers/activityController.js\<close>)\<close>

datatype query_failure = Forbidden | QueryFailed

text \<open>
  \<^verbatim>\<open>query.limit(parseInt(limit))\<close>: a positive number keeps that many documents. What the
  driver does with \<^verbatim>\<open>NaN\<close>, zero or a negative number is \<open>limit_other\<close>: \<open>None\<close> when it
  throws, otherwise the number of documents kept, if bounded.
\<close>

definition apply_limit ::
  "(int option \<Rightarrow> nat option option) \<Rightarrow> int option \<Rightarrow> 'a list \<Rightarrow> 'a list option" where
  "apply_limit limit_other n xs =
     (case n of
        Some k \<Rightarrow>
          if 0 < k then Some (take (nat k) xs)
          else (case limit_other n of
                  None \<Rightarrow> None
                | Some None \<Rightarrow> Some xs
                | Some (Some j) \<Rightarrow> Some (take j xs))
      | None \<Rightarrow>
          (case limit_other n of
             None \<Rightarrow> None
           | Some None \<Rightarrow> Some xs
           | Some (Some j) \<Rightarrow> Some (take j xs)))"

text \<open>Truthiness of a query or body string that may be absent.\<close>

definition str_truthy :: "string option \<Rightarrow> bool" where
  "str_truthy x = (x \<noteq> None \<and> x \<noteq> Some [])"

text \<open>\<^verbatim>\<open>.sort({ createdAt: -1 })\<close>\<close>

definition newest_first :: "activity list \<Rightarrow> activity list" where
  "newest_first xs = sort_key (\<lambda>a. - act_createdAt a) xs"

text \<open>
  The query strings \<open>limit\<close> and \<open>since\<close> are absent or strings. The populated
  \<^verbatim>\<open>activity.userId._id\<close> throws for an activity whose user no longer exists.
\<close>

definition getActivities ::
  "calendar \<Rightarrow> (int option \<Rightarrow> nat option option) \<Rightarrow> store \<Rightarrow> string \<Rightarrow> string
     \<Rightarrow> string option \<Rightarrow> string option \<Rightarrow> query_failure + activity list" where
  "getActivities cal limit_other s workspaceId userId limit since =
     (case find_membership s workspaceId userId of
        None \<Rightarrow> Inl Forbidden
      | Some membership \<Rightarrow>
     (case (if str_truthy since
            then (case since of Some x \<Rightarrow> cal_newDate cal x | None \<Rightarrow> None)
            else Some (mem_joinedDate membership)) of
        None \<Rightarrow> Inl QueryFailed
      | Some lowerBound \<Rightarrow>
     (let found = newest_first
            (filter (\<lambda>a. act_workspaceId a = workspaceId \<and> lowerBound \<le> act_createdAt a)
               (activities s))
      in
     (case (if str_truthy limit
            then apply_limit limit_other (parseInt limit) found else Some found) of
        None \<Rightarrow> Inl QueryFailed
      | Some acts \<Rightarrow>
          if list_all (\<lambda>a. find_user s (act_userId a) \<noteq> None) acts then Inr acts
          else Inl QueryFailed))))"

subsection \<open>\<^verbatim>\<open>exportActivities\<close> (\<^verbatim>\<open>controllers/activityExportController.js\<close>)\<close>

text \<open>
  The rows handed to the workbook. The body fields are absent or strings; an absent
  \<^verbatim>\<open>ownership\<close> is \<^verbatim>\<open>'ALL'\<close>.
\<close>

record export_request =
  ex_ownership :: "string option"
  ex_deviceType :: "string option"
  ex_activityType :: "string option"
  ex_startDate :: "string option"
  ex_endDate :: "string option"

datatype export_row =
    RawRow activity
  | AggregatedRow int int string string int int

text \<open>
  \<^verbatim>\<open>start\<close> is \<^verbatim>\<open>null\<close> (\<open>None\<close>) or a date that may be invalid (\<open>Some None\<close>);
  \<^verbatim>\<open>start && start > thirtyDaysAgo ? start : thirtyDaysAgo\<close>.
\<close>

definition effectiveStart :: "int option option \<Rightarrow> int \<Rightarrow> int" where
  "effectiveStart start thirtyDaysAgo =
     (case start of
        Some (Some t) \<Rightarrow> if t > thirtyDaysAgo then t else thirtyDaysAgo
      | _ \<Rightarrow> thirtyDaysAgo)"

definition flatten_archives ::
  "export_request \<Rightarrow> archive_doc list \<Rightarrow> export_row list" where
  "flatten_archives rq archives =
     concat (map (\<lambda>dayDoc.
       map (\<lambda>entry. AggregatedRow (ar_date dayDoc) (t_hour entry) (t_type entry)
              (case t_deviceType entry of None \<Rightarrow> ''N/A'' | Some x \<Rightarrow> if x = [] then ''N/A'' else x)
              (t_count entry) (t_points entry))
         (filter (\<lambda>entry.
             (if str_truthy (ex_deviceType rq)
              then t_deviceType entry = ex_deviceType rq else True)
           \<and> (if str_truthy (ex_activityType rq)
                then Some (t_type entry) = ex_activityType rq else True))
            (ar_timeline dayDoc))) archives)"

text \<open>
  \<^verbatim>\<open>start\<close> and \<^verbatim>\<open>end\<close> of the handler: \<^verbatim>\<open>start\<close> is \<^verbatim>\<open>null\<close> without a
  \<^verbatim>\<open>startDate\<close>; \<^verbatim>\<open>end\<close> is the end of the day of \<^verbatim>\<open>endDate\<close>, or of today, and
  stays invalid (\<open>None\<close>) when \<^verbatim>\<open>endDate\<close> does not parse.
\<close>

definition export_start :: "calendar \<Rightarrow> export_request \<Rightarrow> int option option" where
  "export_start cal rq =
     (if str_truthy (ex_startDate rq)
      then (case ex_startDate rq of Some x \<Rightarrow> Some (cal_newDate cal x) | None \<Rightarrow> None)
      else None)"

definition export_end :: "calendar \<Rightarrow> int \<Rightarrow> export_request \<Rightarrow> int option" where
  "export_end cal now rq =
     map_option (cal_endOfDay cal)
       (if str_truthy (ex_endDate rq)
        then (case ex_endDate rq of Some x \<Rightarrow> cal_newDate cal x | None \<Rightarrow> None)
        else Some now)"

text \<open>The raw-log query of the \<^verbatim>\<open>MY_ACTIVITY\<close> branch, with its safety limit.\<close>

definition my_activity_rows ::
  "store \<Rightarrow> string \<Rightarrow> string \<Rightarrow> export_request \<Rightarrow> int \<Rightarrow> int \<Rightarrow> activity list" where
  "my_activity_rows s workspaceId userId rq lower upper =
     take 10000 (newest_first
       (filter (\<lambda>a. act_workspaceId a = workspaceId \<and> act_userId a = userId
            \<and> lower \<le> act_createdAt a \<and> act_createdAt a \<le> upper
            \<and> (if str_truthy (ex_deviceType rq)
                 then act_deviceType a = ex_deviceType rq else True)
            \<and> (if str_truthy (ex_activityType rq)
                 then Some (act_type a) = ex_activityType rq else True))
          (activities s)))"

definition exportActivities ::
  "calendar \<Rightarrow> int \<Rightarrow> store \<Rightarrow> archive_doc list \<Rightarrow> string \<Rightarrow> string \<Rightarrow> export_request
     \<Rightarrow> query_failure + export_row list" where
  "exportActivities cal now s coll workspaceId userId rq =
     (case find_membership s workspaceId userId of
        None \<Rightarrow> Inl Forbidden
      | Some membership \<Rightarrow>
     (let start = export_start cal rq;
          end1 = export_end cal now rq
      in
     (if ex_ownership rq = Some ''MY_ACTIVITY'' then
        (let thirtyDaysAgo = cal_minusDays cal now 30;
             lower = effectiveStart start thirtyDaysAgo
         in case end1 of
              None \<Rightarrow> Inl QueryFailed
            | Some upper \<Rightarrow> Inr (map RawRow (my_activity_rows s workspaceId userId rq lower upper)))
      else
        (case (start, end1) of
           (Some None, _) \<Rightarrow> Inl QueryFailed
         | (_, None) \<Rightarrow> Inl QueryFailed
         | (lo, Some upper) \<Rightarrow>
             Inr (flatten_archives rq
               (sort_key (\<lambda>d. - ar_date d)
                 (filter (\<lambda>d. ar_workspaceId d = workspaceId
                      \<and> (case lo of Some (Some t) \<Rightarrow> t \<le> ar_date d | _ \<Rightarrow> True)
                      \<and> ar_date d \<le> upper) coll)))))))"

section \<open>Archive compaction (\<^verbatim>\<open>archiveActivities\<close>)\<close>

text \<open>
  The aggregation pipeline, stage by stage, over the raw activities. A \<^verbatim>\<open>$group\<close> stage
  emits one document per distinct key; the model emits them in the order of \<open>remdups\<close> of
  the keys, and \<^verbatim>\<open>$addToSet\<close> as the \<open>remdups\<close> of the collected values.
\<close>

record bucket =
  b_workspaceId :: string
  b_type :: string
  b_deviceType :: "string option"
  b_day :: int
  b_hour :: int
  b_count :: int
  b_points :: int
  b_userIds :: "string list"

text \<open>Stage 1: \<^verbatim>\<open>$match\<close> on \<open>startDate \<le> createdAt < endDate\<close>.\<close>

definition match_range :: "int \<Rightarrow> int \<Rightarrow> activity list \<Rightarrow> activity list" where
  "match_range startDate endDate acts =
     filter (\<lambda>a. startDate \<le> act_createdAt a \<and> act_createdAt a < endDate) acts"

text \<open>Stage 2: one bucket per workspace, type, device type, UTC day and hour.\<close>

definition hour_key :: "activity \<Rightarrow> string \<times> string \<times> string option \<times> int \<times> int" where
  "hour_key a =
     (act_workspaceId a, act_type a, act_deviceType a, utc_day (act_createdAt a),
      utc_hour (act_createdAt a))"

definition hour_bucket ::
  "activity list \<Rightarrow> string \<times> string \<times> string option \<times> int \<times> int \<Rightarrow> bucket" where
  "hour_bucket acts k =
     (case k of (w, ty, dt, day, hour) \<Rightarrow>
        (let grp = filter (\<lambda>a. hour_key a = k) acts
         in \<lparr> b_workspaceId = w, b_type = ty, b_deviceType = dt, b_day = day, b_hour = hour,
              b_count = int (length grp),
              b_points = sum_list (map act_points grp),
              b_userIds = remdups (map act_userId grp) \<rparr>))"

definition hour_buckets :: "activity list \<Rightarrow> bucket list" where
  "hour_buckets acts = map (hour_bucket acts) (remdups (map hour_key acts))"

text \<open>Stages 3 and 4: one day document per workspace and day, then the projection.\<close>

definition day_key :: "bucket \<Rightarrow> string \<times> int" where
  "day_key b = (b_workspaceId b, b_day b)"

definition timeline_of :: "bucket \<Rightarrow> timeline_entry" where
  "timeline_of b =
     \<lparr> t_hour = b_hour b, t_type = b_type b, t_deviceType = b_deviceType b,
       t_count = b_count b, t_points = b_points b, t_userIds = b_userIds b \<rparr>"

definition day_document :: "bucket list \<Rightarrow> string \<times> int \<Rightarrow> archive_doc" where
  "day_document buckets k =
     (let grp = filter (\<lambda>b. day_key b = k) buckets;
          dailyTotalPoints = sum_list (map b_points grp);
          dailyTotalActivities = sum_list (map b_count grp);
          allUserIds = map b_userIds grp;
          timeline = map timeline_of grp
      in \<lparr> ar_workspaceId = fst k,
           ar_date = snd k,
           ar_stats = \<lparr> totalPoints = dailyTotalPoints,
                        totalActivities = dailyTotalActivities,
                        activeUsersCount = length (remdups (foldl (@) [] allUserIds)) \<rparr>,
           ar_timeline = timeline \<rparr>)"

definition day_documents :: "bucket list \<Rightarrow> archive_doc list" where
  "day_documents buckets = map (day_document buckets) (remdups (map day_key buckets))"

text \<open>
  Stage 5: \<^verbatim>\<open>$merge\<close> on \<^verbatim>\<open>workspaceId\<close> and \<^verbatim>\<open>date\<close>. The archive collection
  holds each document under its \<^verbatim>\<open>_id\<close>; a replaced document keeps its \<^verbatim>\<open>_id\<close>, an
  inserted one takes a new one from \<open>fresh\<close>.
\<close>

type_synonym archive = "(string \<times> archive_doc) list"

definition same_day :: "archive_doc \<Rightarrow> archive_doc \<Rightarrow> bool" where
  "same_day d e = (ar_workspaceId d = ar_workspaceId e \<and> ar_date d = ar_date e)"

definition merge_doc :: "(archive \<Rightarrow> string) \<Rightarrow> archive \<Rightarrow> archive_doc \<Rightarrow> archive" where
  "merge_doc fresh coll doc =
     (if list_ex (\<lambda>(i, d). same_day d doc) coll
      then map (\<lambda>(i, d). if same_day d doc then (i, doc) else (i, d)) coll
      else coll @ [(fresh coll, doc)])"

definition archiveActivities ::
  "(archive \<Rightarrow> string) \<Rightarrow> int \<Rightarrow> int \<Rightarrow> activity list \<Rightarrow> archive \<Rightarrow> archive" where
  "archiveActivities fresh startDate endDate acts coll =
     foldl (merge_doc fresh) coll
       (day_documents (hour_buckets (match_range startDate endDate acts)))"

text \<open>
  A day document is stored in the archive: some document of the collection has its workspace and
  day, and every document of the collection with that workspace and day is equal to it.
\<close>

definition stored_as :: "archive \<Rightarrow> archive_doc \<Rightarrow> bool" where
  "stored_as coll doc =
     (list_ex (\<lambda>(i, d). same_day d doc) coll
      \<and> list_all (\<lambda>(i, d). if same_day d doc then d = doc else True) coll)"

definition doc_key :: "archive_doc \<Rightarrow> string \<times> int" where
  "doc_key d = (ar_workspaceId d, ar_date d)"

text \<open>
  No device's \<^verbatim>\<open>lastUniqueCode\<close> is smaller after than before: the two device lists hold
  the same devices in the same order, each with a code that is at least its old one.
\<close>

definition never_decreases :: "device list \<Rightarrow> device list \<Rightarrow> bool" where
  "never_decreases before after =
     list_all2 (\<lambda>d d'. dev_id d' = dev_id d
                  \<and> or_zero (dev_lastUniqueCode d) \<le> or_zero (dev_lastUniqueCode d'))
       before after"

text \<open>Observations on a response, and the same request submitted once per runtime.\<close>

fun is_success :: "response \<Rightarrow> bool" where
  "is_success (Success d) = True"
| "is_success (Fail f) = False"

definition response_status :: "response \<Rightarrow> nat" where
  "response_status r = (case r of Fail f \<Rightarrow> http_status f | Success d \<Rightarrow> 200)"

definition response_error :: "(json option \<Rightarrow> string) \<Rightarrow> response \<Rightarrow> string option" where
  "response_error show r = (case r of Fail f \<Rightarrow> Some (error_text show f) | Success d \<Rightarrow> None)"

definition response_message :: "(json option \<Rightarrow> string) \<Rightarrow> response \<Rightarrow> string option" where
  "response_message show r = (case r of Fail f \<Rightarrow> message_text show f | Success d \<Rightarrow> None)"

fun scan_repeatedly :: "runtime list \<Rightarrow> store \<Rightarrow> scan_request \<Rightarrow> response list \<times> store" where
  "scan_repeatedly [] s rq = ([], s)"
| "scan_repeatedly (rt # rts) s rq =
     (case scanDevice rt s rq of
        (r, s1) \<Rightarrow> (case scan_repeatedly rts s1 rq of (rs, s2) \<Rightarrow> (r # rs, s2)))"

fun points_earned :: "response \<Rightarrow> int option" where
  "points_earned (Success d) = Some (sd_pointsEarned d)"
| "points_earned (Fail f) = None"

section \<open>Sample data\<close>

text \<open>Concrete inputs at which the theorems below are instantiated.\<close>

definition sample_payload :: "rat \<Rightarrow> json" where
  "sample_payload q =
     JObj [(''deviceId'', JStr ''BIN-004''), (''type'', JStr ''SMART_BIN''),
           (''action'', JStr ''SCAN''), (''uniqueCode'', JNum q)]"

definition sample_activity :: "string \<Rightarrow> string \<Rightarrow> int \<Rightarrow> activity" where
  "sample_activity i u t =
     \<lparr> act_id = i, act_workspaceId = ''w1'', act_userId = u, act_deviceId = Some ''d1'',
       act_deviceType = Some ''SMART_BIN'', act_type = ''SCAN'', act_title = ''Waste Scanned'',
       act_description = ''Bin 4'', act_points = 10, act_timestamp = ''t'', act_createdAt = t \<rparr>"

text \<open>User \<open>u1\<close> scans in hour 3 and in hour 15 of day 0, user \<open>u2\<close> in hour 3.\<close>

definition sample_raw :: "activity list" where
  "sample_raw =
     [sample_activity ''a1'' ''u1'' 10800000, sample_activity ''a2'' ''u1'' 54000000,
      sample_activity ''a3'' ''u2'' 10800001]"

definition sample_day_doc :: archive_doc where
  "sample_day_doc =
     \<lparr> ar_workspaceId = ''w1'', ar_date = 0,
       ar_stats = \<lparr> totalPoints = 30, totalActivities = 3, activeUsersCount = 2 \<rparr>,
       ar_timeline =
         [\<lparr> t_hour = 15, t_type = ''SCAN'', t_deviceType = Some ''SMART_BIN'', t_count = 1,
             t_points = 10, t_userIds = [''u1''] \<rparr>,
          \<lparr> t_hour = 3, t_type = ''SCAN'', t_deviceType = Some ''SMART_BIN'', t_count = 2,
             t_points = 20, t_userIds = [''u1'', ''u2''] \<rparr>] \<rparr>"

text \<open>
  The device \<^verbatim>\<open>BIN-004\<close> of workspace \<open>w1\<close> with last code 1000, the member \<open>u1\<close> with 50
  points, and a runtime whose decryption yields a given payload.
\<close>

definition sample_rt :: "json option \<Rightarrow> runtime" where
  "sample_rt p =
     \<lparr> rt_decrypt = (\<lambda>e. p), rt_filter = (\<lambda>v. None), rt_cast = (\<lambda>v. None),
       rt_now = 1700000000000, rt_nowString = ''Tue Nov 14 2023'', rt_newId = ''a9'',
       rt_round = (\<lambda>x. x) \<rparr>"

definition sample_device :: device where
  "sample_device =
     \<lparr> dev_id = ''d1'', dev_deviceId = Some ''BIN-004'', dev_name = ''Bin 4'',
       dev_type = ''SMART_BIN'', dev_workspaceId = ''w1'', dev_lastUniqueCode = Some 1000 \<rparr>"

definition sample_member :: member where
  "sample_member =
     \<lparr> mem_id = ''m1'', mem_userId = ''u1'', mem_workspaceId = ''w1'', mem_points = 50,
       mem_scanCount = 5, mem_joinedDate = 1000 \<rparr>"

definition sample_user :: user where
  "sample_user = \<lparr> usr_id = ''u1'', usr_points = 70, usr_scanCount = 7 \<rparr>"

definition sample_store :: store where
  "sample_store =
     \<lparr> devices = [sample_device],
       members = [sample_member],
       users = [sample_user],
       workspaces = [\<lparr> ws_id = ''w1'', ws_name = ''W'' \<rparr>],
       activities = [] \<rparr>"

definition sample_encrypted :: "string \<Rightarrow> scan_request" where
  "sample_encrypted u =
     \<lparr> rq_encryptedPayload = Some (JStr ''AAAA''), rq_deviceId = None, rq_action = None,
       rq_type = None, rq_workspaceId = ''w1'', rq_userId = u \<rparr>"

definition sample_legacy :: "string \<Rightarrow> string \<Rightarrow> scan_request" where
  "sample_legacy d u =
     \<lparr> rq_encryptedPayload = None, rq_deviceId = Some (JStr d),
       rq_action = Some (JStr ''SCAN''), rq_type = None, rq_workspaceId = ''w1'',
       rq_userId = u \<rparr>"

text \<open>
  A log with one activity created at the instant 5000, and a calendar that reads every date
  string as that instant and keeps local time in UTC.
\<close>

definition sample_log :: store where
  "sample_log = sample_store\<lparr>activities := [sample_activity ''a1'' ''u1'' 5000]\<rparr>"

definition sample_cal :: calendar where
  "sample_cal =
     \<lparr> cal_newDate = (\<lambda>x. Some 5000),
       cal_minusDays = (\<lambda>t n. t - n * ms_per_day),
       cal_endOfDay = (\<lambda>t. utc_day t + 86399999) \<rparr>"

definition sample_export :: export_request where
  "sample_export =
     \<lparr> ex_ownership = Some ''MY_ACTIVITY'', ex_deviceType = None, ex_activityType = None,
       ex_startDate = Some ''1970-01-01'', ex_endDate = None \<rparr>"



text \<open>A log with an activity of day 0 and an activity of day 34.\<close>

definition sample_log2 :: store where
  "sample_log2 =
     sample_store\<lparr>activities := [sample_activity ''a1'' ''u1'' 5000,
        sample_activity ''a2'' ''u1'' 3000000000]\<rparr>"

section \<open>Payload validation\<close>

lemma find_requiredFields_None:
  "find (field_missing p) requiredFields = None \<longleftrightarrow>
     \<not> field_missing p ''deviceId'' \<and> \<not> field_missing p ''type''
     \<and> \<not> field_missing p ''action'' \<and> \<not> field_missing p ''uniqueCode''"
  by (simp add: requiredFields_def)

lemma falsy_field_missing: "\<not> truthy p \<Longrightarrow> field_missing p f"
  by (cases p) (simp_all add: field_missing_def)

lemma validatePayload_Valid_iff:
  "validatePayload p = Valid \<longleftrightarrow>
     \<not> field_missing p ''deviceId'' \<and> \<not> field_missing p ''type''
     \<and> \<not> field_missing p ''action'' \<and> \<not> field_missing p ''uniqueCode''
     \<and> action_in_enum (js_get p ''action'') \<and> is_number (js_get p ''uniqueCode'')"
proof (cases "truthy p")
  case False
  then show ?thesis using falsy_field_missing [of p "''deviceId''"]
    by (simp add: validatePayload_def)
next
  case True
  show ?thesis
  proof (cases "find (field_missing p) requiredFields")
    case None
    with True show ?thesis using find_requiredFields_None [of p]
      by (auto simp: validatePayload_def split: option.splits)
  next
    case (Some f)
    then have "find (field_missing p) requiredFields \<noteq> None" by simp
    then have "\<not> (\<not> field_missing p ''deviceId'' \<and> \<not> field_missing p ''type''
     \<and> \<not> field_missing p ''action'' \<and> \<not> field_missing p ''uniqueCode'')"
      using find_requiredFields_None [of p] by simp
    with True Some show ?thesis by (auto simp: validatePayload_def)
  qed
qed

lemma validatePayload_Invalid_reason:
  assumes "validatePayload p = Invalid r"
  shows "case r of
        EmptyPayload \<Rightarrow> \<not> truthy p
      | MissingField f \<Rightarrow> f \<in> set requiredFields \<and> field_missing p f
      | InvalidActionValue a \<Rightarrow> js_get p ''action'' = Some a \<and> \<not> action_in_enum (Some a)
      | UniqueCodeNotNumber \<Rightarrow> \<not> is_number (js_get p ''uniqueCode'')"
proof (cases "truthy p")
  case False
  with assms show ?thesis by (simp add: validatePayload_def)
next
  case True
  show ?thesis
  proof (cases "find (field_missing p) requiredFields")
    case (Some f)
    then have "f \<in> set requiredFields \<and> field_missing p f"
      by (auto simp: find_Some_iff)
    with assms True Some show ?thesis by (auto simp: validatePayload_def)
  next
    case None
    then have "\<not> field_missing p ''action''" using find_requiredFields_None [of p] by simp
    with assms True None show ?thesis
      by (auto simp: validatePayload_def field_missing_def split: option.splits if_splits)
  qed
qed

lemma valid_payload_uniqueCode:
  "validatePayload p = Valid \<Longrightarrow> \<exists>q. js_get p ''uniqueCode'' = Some (JNum q)"
proof -
  assume "validatePayload p = Valid"
  then have "is_number (js_get p ''uniqueCode'')" by (simp add: validatePayload_Valid_iff)
  then show ?thesis by (cases "js_get p ''uniqueCode''" rule: is_number.cases) simp_all
qed

text \<open>
  C8, as the claim states it, fails: a payload whose \<^verbatim>\<open>uniqueCode\<close> is the number 1.5
  passes \<open>validatePayload\<close>, and 1.5 is not an integer.
\<close>

theorem validatePayload_accepts_fraction:
  "validatePayload (sample_payload (3 / 2)) = Valid
   \<and> \<not> is_integer (js_get (sample_payload (3 / 2)) ''uniqueCode'')"
  by code_simp

text \<open>
  C8, amended: \<open>validatePayload\<close> fails closed on the type of \<^verbatim>\<open>uniqueCode\<close>, not on its
  integrality. A payload passes exactly when \<^verbatim>\<open>deviceId\<close>, \<^verbatim>\<open>type\<close>, \<^verbatim>\<open>action\<close> and
  \<^verbatim>\<open>uniqueCode\<close> are all present and not null, \<^verbatim>\<open>action\<close> is \<^verbatim>\<open>SCAN\<close> or
  \<^verbatim>\<open>REGISTER\<close>, and \<^verbatim>\<open>uniqueCode\<close> is a number; every rejection carries a reason that
  names what is wrong: the empty payload, a required field that is missing, the action that is
  outside the enumeration, or the \<^verbatim>\<open>uniqueCode\<close> that is not a number.
\<close>

theorem validatePayload_fails_closed:
  "(validatePayload p = Valid \<longleftrightarrow>
      \<not> field_missing p ''deviceId'' \<and> \<not> field_missing p ''type''
      \<and> \<not> field_missing p ''action'' \<and> \<not> field_missing p ''uniqueCode''
      \<and> action_in_enum (js_get p ''action'') \<and> is_number (js_get p ''uniqueCode''))
   \<and> (validatePayload p' = Invalid r \<longrightarrow>
        (case r of
           EmptyPayload \<Rightarrow> \<not> truthy p'
         | MissingField f \<Rightarrow> f \<in> set requiredFields \<and> field_missing p' f
         | InvalidActionValue a \<Rightarrow> js_get p' ''action'' = Some a \<and> \<not> action_in_enum (Some a)
         | UniqueCodeNotNumber \<Rightarrow> \<not> is_number (js_get p' ''uniqueCode'')))"
  using validatePayload_Valid_iff [of p] validatePayload_Invalid_reason [of p' r] by blast

theorem validatePayload_fails_closed_witness:
  "validatePayload (sample_payload 1001) = Valid
   \<and> validatePayload (JObj [(''deviceId'', JStr ''BIN-004'')]) = Invalid (MissingField ''type'')
   \<and> field_missing (JObj [(''deviceId'', JStr ''BIN-004'')]) ''type''"
proof -
  have v: "validatePayload (sample_payload 1001) = Valid" by code_simp
  have i: "validatePayload (JObj [(''deviceId'', JStr ''BIN-004'')]) = Invalid (MissingField ''type'')"
    by code_simp
  from validatePayload_fails_closed
         [of "sample_payload 1001" "JObj [(''deviceId'', JStr ''BIN-004'')]" "MissingField ''type''"] i
  have "field_missing (JObj [(''deviceId'', JStr ''BIN-004'')]) ''type''" by simp
  with v i show ?thesis by simp
qed

section \<open>Lookback days of the archive queries\<close>

lemma parseInt_zero: "parseInt (Some ''0'') = Some 0"
  by code_simp

text \<open>
  C7 at the input \<^verbatim>\<open>days=0\<close>: neither handler answers with the validation error; each
  answers as for its default, 7 days for the stats and 30 days for the breakdown.
\<close>

theorem zero_days_takes_default:
  "getWorkspaceArchiveStats cal now coll w (Some ''0'') = Inr (getArchivedStats cal now coll w 7)
   \<and> getWorkspaceTypeBreakdown cal now coll w (Some ''0'')
       = Inr (30, getActivityTypeBreakdown cal now coll w 30)"
  by (simp add: getWorkspaceArchiveStats_def getWorkspaceTypeBreakdown_def parseInt_zero
        or_default_def)

section \<open>Archive compaction\<close>

lemma foldl_append_concat: "foldl (@) acc xss = acc @ concat xss"
  by (induction xss arbitrary: acc) simp_all

lemma day_document_users:
  "activeUsersCount (ar_stats (day_document buckets k))
     = card (\<Union>b \<in> {b \<in> set buckets. day_key b = k}. set (b_userIds b))"
  by (simp add: day_document_def Let_def foldl_append_concat length_remdups_card_conv)

lemma day_document_timeline_users:
  "(\<Union>e \<in> set (ar_timeline (day_document buckets k)). set (t_userIds e))
     = (\<Union>b \<in> {b \<in> set buckets. day_key b = k}. set (b_userIds b))"
  by (auto simp: day_document_def Let_def timeline_of_def)

lemma day_document_key:
  "ar_workspaceId (day_document buckets k) = fst k" "ar_date (day_document buckets k) = snd k"
  by (simp_all add: day_document_def Let_def)

lemma hour_bucket_fields:
  "hk = (w, ty, dt, day, hour) \<Longrightarrow> day_key (hour_bucket acts hk) = (w, day)"
  "b_userIds (hour_bucket acts hk) = remdups (map act_userId (filter (\<lambda>a. hour_key a = hk) acts))"
  by (auto simp: hour_bucket_def day_key_def Let_def split: prod.splits)

lemma hour_buckets_users:
  "(\<Union>b \<in> {b \<in> set (hour_buckets ms). day_key b = k}. set (b_userIds b))
     = act_userId ` {a \<in> set ms. (act_workspaceId a, utc_day (act_createdAt a)) = k}"
proof (rule set_eqI, rule iffI)
  fix u
  assume "u \<in> (\<Union>b \<in> {b \<in> set (hour_buckets ms). day_key b = k}. set (b_userIds b))"
  then obtain b where b: "b \<in> set (hour_buckets ms)" "day_key b = k" "u \<in> set (b_userIds b)"
    by blast
  from b(1) have "b \<in> hour_bucket ms ` set (map hour_key ms)"
    by (simp add: hour_buckets_def)
  then obtain hk where hk: "hk \<in> set (map hour_key ms)" and bhk: "b = hour_bucket ms hk"
    by blast
  from b bhk have dk: "day_key (hour_bucket ms hk) = k"
      and u: "u \<in> set (b_userIds (hour_bucket ms hk))" by simp_all
  obtain w ty dt day hour where hkeq: "hk = (w, ty, dt, day, hour)" by (cases hk)
  from u obtain a where a: "a \<in> set ms" "hour_key a = hk" "u = act_userId a"
    by (auto simp: hour_bucket_fields(2))
  from dk hkeq have "k = (w, day)" by (simp add: hour_bucket_fields(1))
  with a hkeq have "(act_workspaceId a, utc_day (act_createdAt a)) = k"
    by (simp add: hour_key_def)
  with a show "u \<in> act_userId ` {a \<in> set ms. (act_workspaceId a, utc_day (act_createdAt a)) = k}"
    by blast
next
  fix u
  assume "u \<in> act_userId ` {a \<in> set ms. (act_workspaceId a, utc_day (act_createdAt a)) = k}"
  then obtain a where a: "a \<in> set ms" "(act_workspaceId a, utc_day (act_createdAt a)) = k"
      "u = act_userId a" by blast
  let ?hk = "hour_key a"
  have hkin: "?hk \<in> set (map hour_key ms)" using a(1) by simp
  have "day_key (hour_bucket ms ?hk) = k"
    using a(2) hour_bucket_fields(1) [of ?hk "act_workspaceId a" "act_type a" "act_deviceType a"
        "utc_day (act_createdAt a)" "utc_hour (act_createdAt a)" ms]
    by (simp add: hour_key_def)
  moreover have "u \<in> set (b_userIds (hour_bucket ms ?hk))"
    using a by (auto simp: hour_bucket_fields(2))
  ultimately show "u \<in> (\<Union>b \<in> {b \<in> set (hour_buckets ms). day_key b = k}. set (b_userIds b))"
    using hkin by (auto simp: hour_buckets_def)
qed

text \<open>
  C3: in every day document that the compaction produces, \<open>activeUsersCount\<close> is the size of
  the union of the user-id sets of the document's timeline buckets, which is the number of
  distinct users with a raw activity of that workspace and UTC day in the range. A user who
  contributes to several buckets of the day is an element of the union once.
\<close>

theorem activeUsersCount_is_union:
  assumes "doc \<in> set (day_documents (hour_buckets (match_range startDate endDate acts)))"
  shows "activeUsersCount (ar_stats doc) = card (\<Union>e \<in> set (ar_timeline doc). set (t_userIds e))
     \<and> activeUsersCount (ar_stats doc)
         = card (act_userId ` {a \<in> set acts. startDate \<le> act_createdAt a \<and> act_createdAt a < endDate
               \<and> act_workspaceId a = ar_workspaceId doc \<and> utc_day (act_createdAt a) = ar_date doc})"
proof -
  let ?ms = "match_range startDate endDate acts"
  from assms obtain k where doc: "doc = day_document (hour_buckets ?ms) k"
    by (auto simp: day_documents_def)
  have 1: "activeUsersCount (ar_stats doc) = card (\<Union>e \<in> set (ar_timeline doc). set (t_userIds e))"
    unfolding doc by (simp only: day_document_users day_document_timeline_users)
  have "{a \<in> set ?ms. (act_workspaceId a, utc_day (act_createdAt a)) = k}
      = {a \<in> set acts. startDate \<le> act_createdAt a \<and> act_createdAt a < endDate
               \<and> act_workspaceId a = ar_workspaceId doc \<and> utc_day (act_createdAt a) = ar_date doc}"
    unfolding doc by (cases k) (auto simp: match_range_def day_document_key)
  then have 2: "activeUsersCount (ar_stats doc)
         = card (act_userId ` {a \<in> set acts. startDate \<le> act_createdAt a \<and> act_createdAt a < endDate
               \<and> act_workspaceId a = ar_workspaceId doc \<and> utc_day (act_createdAt a) = ar_date doc})"
    using day_document_users [of "hour_buckets ?ms" k] hour_buckets_users [of ?ms k] doc by simp
  from 1 2 show ?thesis by simp
qed

theorem activeUsersCount_is_union_witness:
  "sample_day_doc \<in> set (day_documents (hour_buckets (match_range 0 86400000 sample_raw)))
   \<and> activeUsersCount (ar_stats sample_day_doc) = 2
   \<and> card (\<Union>e \<in> set (ar_timeline sample_day_doc). set (t_userIds e)) = 2
   \<and> sum_list (map (\<lambda>e. length (t_userIds e)) (ar_timeline sample_day_doc)) = 3"
proof -
  have docs: "day_documents (hour_buckets (match_range 0 86400000 sample_raw)) = [sample_day_doc]"
    by code_simp
  then have m: "sample_day_doc \<in> set (day_documents (hour_buckets (match_range 0 86400000 sample_raw)))"
    by simp
  have c: "activeUsersCount (ar_stats sample_day_doc) = 2"
    by (simp add: sample_day_doc_def)
  have s: "sum_list (map (\<lambda>e. length (t_userIds e)) (ar_timeline sample_day_doc)) = 3"
    by (simp add: sample_day_doc_def)
  from activeUsersCount_is_union [OF m] c
  have "card (\<Union>e \<in> set (ar_timeline sample_day_doc). set (t_userIds e)) = 2" by simp
  with m c s show ?thesis by simp
qed

lemma same_day_refl: "same_day d d" by (simp add: same_day_def)
lemma same_day_sym: "same_day d e \<Longrightarrow> same_day e d" by (simp add: same_day_def)

lemma stored_as_iff:
  "stored_as coll doc \<longleftrightarrow>
     (\<exists>i d. (i, d) \<in> set coll \<and> same_day d doc)
     \<and> (\<forall>i d. (i, d) \<in> set coll \<longrightarrow> same_day d doc \<longrightarrow> d = doc)"
  by (auto simp: stored_as_def list_ex_iff list_all_iff)

lemma in_merge_doc:
  "(j, e) \<in> set (merge_doc fresh coll doc) \<longleftrightarrow>
     (if \<exists>i d. (i, d) \<in> set coll \<and> same_day d doc
      then \<exists>d. (j, d) \<in> set coll \<and> e = (if same_day d doc then doc else d)
      else (j, e) \<in> set coll \<or> (j, e) = (fresh coll, doc))"
proof (cases "\<exists>i d. (i, d) \<in> set coll \<and> same_day d doc")
  case True
  then have ex: "list_ex (\<lambda>(i, d). same_day d doc) coll" by (auto simp: list_ex_iff)
  have "(j, e) \<in> set (merge_doc fresh coll doc)
      \<longleftrightarrow> (j, e) \<in> (\<lambda>(i, d). if same_day d doc then (i, doc) else (i, d)) ` set coll"
    using ex by (simp add: merge_doc_def)
  also have "\<dots> \<longleftrightarrow> (\<exists>d. (j, d) \<in> set coll \<and> e = (if same_day d doc then doc else d))"
    by (auto simp: image_iff split: if_splits prod.splits) 
  finally show ?thesis using True by simp
next
  case False
  then have ex: "\<not> list_ex (\<lambda>(i, d). same_day d doc) coll" by (auto simp: list_ex_iff)
  then show ?thesis using False by (auto simp: merge_doc_def)
qed

lemma merge_doc_stored: "stored_as (merge_doc fresh coll doc) doc"
proof (cases "\<exists>i d. (i, d) \<in> set coll \<and> same_day d doc")
  case True
  then obtain i0 d0 where d0: "(i0, d0) \<in> set coll" "same_day d0 doc" by blast
  then have "(i0, doc) \<in> set (merge_doc fresh coll doc)"
    using True by (subst in_merge_doc) auto
  then have ex: "\<exists>i d. (i, d) \<in> set (merge_doc fresh coll doc) \<and> same_day d doc"
    using same_day_refl by blast
  have "d = doc" if "(i, d) \<in> set (merge_doc fresh coll doc)" "same_day d doc" for i d
  proof -
    from that(1) True obtain d' where "d = (if same_day d' doc then doc else d')"
      by (subst (asm) in_merge_doc) auto
    with that(2) show ?thesis by (cases "same_day d' doc") simp_all
  qed
  with ex show ?thesis unfolding stored_as_iff by blast
next
  case False
  then have m: "merge_doc fresh coll doc = coll @ [(fresh coll, doc)]"
    by (auto simp: merge_doc_def list_ex_iff)
  have "(fresh coll, doc) \<in> set (coll @ [(fresh coll, doc)]) \<and> same_day doc doc"
    by (simp add: same_day_refl)
  then have ex: "\<exists>i d. (i, d) \<in> set (coll @ [(fresh coll, doc)]) \<and> same_day d doc"
    by blast
  have "\<forall>i d. (i, d) \<in> set (coll @ [(fresh coll, doc)]) \<longrightarrow> same_day d doc \<longrightarrow> d = doc"
    using False by auto
  with ex show ?thesis unfolding stored_as_iff m by blast
qed

lemma merge_doc_keeps:
  assumes ns: "\<not> same_day doc doc'" and st: "stored_as coll doc"
  shows "stored_as (merge_doc fresh coll doc') doc"
proof -
  from st obtain i0 d0 where d0: "(i0, d0) \<in> set coll" "same_day d0 doc"
    and all: "\<And>i d. (i, d) \<in> set coll \<Longrightarrow> same_day d doc \<Longrightarrow> d = doc"
    unfolding stored_as_iff by blast
  from d0 all have d0doc: "d0 = doc" by blast
  have nd: "\<not> same_day doc' doc" using ns same_day_sym by blast
  show ?thesis
  proof (cases "\<exists>i d. (i, d) \<in> set coll \<and> same_day d doc'")
    case True
    have "(i0, doc) \<in> set (merge_doc fresh coll doc')"
      using True d0(1) d0doc ns by (subst in_merge_doc) auto
    then have ex: "\<exists>i d. (i, d) \<in> set (merge_doc fresh coll doc') \<and> same_day d doc"
      using same_day_refl by blast
    have "d = doc" if "(i, d) \<in> set (merge_doc fresh coll doc')" "same_day d doc" for i d
    proof -
      from that(1) True obtain d' where d': "(i, d') \<in> set coll"
          "d = (if same_day d' doc' then doc' else d')"
        by (subst (asm) in_merge_doc) auto
      show ?thesis
      proof (cases "same_day d' doc'")
        case True
        with d' that(2) nd show ?thesis by simp
      next
        case False
        with d' that(2) all show ?thesis by simp
      qed
    qed
    with ex show ?thesis unfolding stored_as_iff by blast
  next
    case False
    then have m: "merge_doc fresh coll doc' = coll @ [(fresh coll, doc')]"
      by (auto simp: merge_doc_def list_ex_iff)
    show ?thesis unfolding stored_as_iff m using d0 all nd by auto
  qed
qed

lemma merge_doc_noop:
  assumes "stored_as coll doc" shows "merge_doc fresh coll doc = coll"
proof -
  from assms have ex: "list_ex (\<lambda>(i, d). same_day d doc) coll"
    and all: "\<forall>x \<in> set coll. (case x of (i, d) \<Rightarrow> if same_day d doc then d = doc else True)"
    by (simp_all add: stored_as_def list_all_iff)
  have "map (\<lambda>(i, d). if same_day d doc then (i, doc) else (i, d)) coll = coll"
  proof (rule map_idI)
    fix x assume "x \<in> set coll"
    with all show "(case x of (i, d) \<Rightarrow> if same_day d doc then (i, doc) else (i, d)) = x"
      by (cases x) auto
  qed
  with ex show ?thesis by (simp add: merge_doc_def)
qed

lemma foldl_merge_keeps:
  "stored_as coll doc \<Longrightarrow> \<forall>doc' \<in> set docs. \<not> same_day doc doc'
     \<Longrightarrow> stored_as (foldl (merge_doc fresh) coll docs) doc"
  by (induction docs arbitrary: coll) (simp_all add: merge_doc_keeps)

lemma same_day_key: "same_day d e \<longleftrightarrow> doc_key d = doc_key e"
  by (auto simp: same_day_def doc_key_def)

lemma foldl_merge_stored:
  "distinct (map doc_key docs) \<Longrightarrow> doc \<in> set docs
     \<Longrightarrow> stored_as (foldl (merge_doc fresh) coll docs) doc"
proof (induction docs arbitrary: coll)
  case Nil
  then show ?case by simp
next
  case (Cons x xs)
  show ?case
  proof (cases "doc = x")
    case True
    have "\<forall>doc' \<in> set xs. \<not> same_day x doc'"
      using Cons.prems(1) by (auto simp: same_day_key)
    then show ?thesis using True merge_doc_stored [of fresh coll x]
      by (simp add: foldl_merge_keeps)
  next
    case False
    with Cons show ?thesis by simp
  qed
qed

lemma foldl_merge_noop:
  "\<forall>doc \<in> set docs. stored_as coll doc \<Longrightarrow> foldl (merge_doc fresh) coll docs = coll"
  by (induction docs) (simp_all add: merge_doc_noop)

lemma day_documents_distinct: "distinct (map doc_key (day_documents buckets))"
proof -
  have "map doc_key (day_documents buckets) = remdups (map day_key buckets)"
    by (simp add: day_documents_def doc_key_def day_document_key comp_def)
  then show ?thesis by simp
qed

text \<open>
  C2: running the compaction a second time over the same raw activities leaves the archive as
  the first run left it. After a run every day document computed from the raw activities in the
  range is stored under its workspace and day: a document with that key exists, and every
  stored document with that key is the computed one.
\<close>

theorem compaction_idempotent:
  "archiveActivities fresh startDate endDate acts
       (archiveActivities fresh startDate endDate acts coll)
     = archiveActivities fresh startDate endDate acts coll
   \<and> (doc \<in> set (day_documents (hour_buckets (match_range startDate endDate acts)))
        \<longrightarrow> stored_as (archiveActivities fresh startDate endDate acts coll) doc)"
proof -
  let ?docs = "day_documents (hour_buckets (match_range startDate endDate acts))"
  have st: "\<forall>doc \<in> set ?docs. stored_as (foldl (merge_doc fresh) coll ?docs) doc"
    using foldl_merge_stored [OF day_documents_distinct] by blast
  then have "foldl (merge_doc fresh) (foldl (merge_doc fresh) coll ?docs) ?docs
      = foldl (merge_doc fresh) coll ?docs"
    by (rule foldl_merge_noop)
  with st show ?thesis by (simp add: archiveActivities_def)
qed

theorem compaction_idempotent_witness:
  "sample_day_doc \<in> set (day_documents (hour_buckets (match_range 0 86400000 sample_raw)))
   \<and> archiveActivities (\<lambda>c. ''x1'') 0 86400000 sample_raw [] = [(''x1'', sample_day_doc)]
   \<and> archiveActivities (\<lambda>c. ''x1'') 0 86400000 sample_raw [(''x1'', sample_day_doc)]
       = [(''x1'', sample_day_doc)]
   \<and> stored_as [(''x1'', sample_day_doc)] sample_day_doc"
proof -
  have docs: "day_documents (hour_buckets (match_range 0 86400000 sample_raw)) = [sample_day_doc]"
    by code_simp
  then have m: "sample_day_doc \<in> set (day_documents (hour_buckets (match_range 0 86400000 sample_raw)))"
    by simp
  have run: "archiveActivities (\<lambda>c. ''x1'') 0 86400000 sample_raw [] = [(''x1'', sample_day_doc)]"
    by code_simp
  from compaction_idempotent [of "\<lambda>c. ''x1''" 0 86400000 sample_raw "[]" sample_day_doc] m run
  show ?thesis by simp
qed

section \<open>Scan handlers\<close>

lemma devices_save_member [simp]: "devices (save_member m s) = devices s"
  by (simp add: save_member_def)
lemma devices_save_user [simp]: "devices (save_user u s) = devices s"
  by (simp add: save_user_def)

lemma award_global_devices:
  "award_global rt s uid m d ft = (r, s') \<Longrightarrow> devices s' = devices s"
  by (auto simp: award_global_def Let_def split: option.splits if_splits)

lemma award_scoped_devices:
  "award_scoped rt s w uid m u d ft = (r, s') \<Longrightarrow> devices s' = devices s"
  by (auto simp: award_scoped_def Let_def split: option.splits if_splits)

lemma replay_protection_cases:
  "replay_protection c device s = Inr s1 \<Longrightarrow>
     (c = None \<and> s1 = s) \<or>
     (\<exists>q. c = Some (JNum q) \<and> or_zero (dev_lastUniqueCode device) < q
          \<and> s1 = save_lastUniqueCode device q s)"
  by (auto simp: replay_protection_def Let_def split: option.splits json.splits if_splits)

lemma replay_protection_replay:
  "q \<le> or_zero (dev_lastUniqueCode device) \<Longrightarrow>
     replay_protection (Some (JNum q)) device s = Inl ReplayDetected"
  by (simp add: replay_protection_def)

lemma global_replay:
  assumes "e \<noteq> []" "decryptQRPayload rt (JStr e) = Some payload" "truthy payload"
    "validatePayload payload = Valid" "js_get payload ''uniqueCode'' = Some (JNum q)"
    "resolve_device_global rt s (js_get payload ''deviceId'') = Inr (Some device)"
    "q \<le> or_zero (dev_lastUniqueCode device)"
  shows "(\<exists>f. scanDeviceGlobal rt s uid (Some (JStr e)) = (Fail f, s))
    \<and> (js_get payload ''action'' = Some (JStr ''SCAN'')
         \<and> find_membership s (dev_workspaceId device) uid \<noteq> None
       \<longrightarrow> scanDeviceGlobal rt s uid (Some (JStr e)) = (Fail ReplayDetected, s))"
  using assms
  by (auto simp: scanDeviceGlobal_def replay_protection_replay Let_def split: option.splits)

lemma scoped_replay:
  assumes "decode rt rq = Inr (Some payload, fd, fa, ft)"
    "js_get payload ''uniqueCode'' = Some (JNum q)"
    "resolve_device_scoped rt s (rq_workspaceId rq) (rq_userId rq) fd = Inr device"
    "q \<le> or_zero (dev_lastUniqueCode device)"
  shows "(\<exists>f. scanDevice rt s rq = (Fail f, s))
    \<and> (fa = Some (JStr ''SCAN'')
         \<and> find_membership s (rq_workspaceId rq) (rq_userId rq) \<noteq> None
       \<longrightarrow> scanDevice rt s rq = (Fail ReplayDetected, s))"
  using assms
  by (auto simp: scanDevice_def payload_uniqueCode_def replay_protection_replay action_in_enum_def Let_def split: option.splits)

lemma find_mem: "find P xs = Some x \<Longrightarrow> x \<in> set xs"
  by (auto simp: find_Some_iff)

lemma resolve_global_mem:
  "resolve_device_global rt s v = Inr (Some d) \<Longrightarrow> d \<in> set (devices s)"
  by (auto simp: resolve_device_global_def split: option.splits dest: find_mem)

lemma resolve_scoped_mem:
  "resolve_device_scoped rt s w u v = Inr d \<Longrightarrow> d \<in> set (devices s)"
  by (auto simp: resolve_device_scoped_def split: option.splits dest: find_mem)

lemma decode_Some:
  "decode rt rq = Inr (Some payload, fd, fa, ft) \<Longrightarrow>
     truthy_opt (rq_encryptedPayload rq) \<and> validatePayload payload = Valid
     \<and> fd = js_get payload ''deviceId'' \<and> fa = js_get payload ''action''
     \<and> ft = js_get payload ''type''"
  by (auto simp: decode_def split: if_splits option.splits validation.splits)

lemma decode_None:
  "decode rt rq = Inr (None, fd, fa, ft) \<Longrightarrow>
     \<not> truthy_opt (rq_encryptedPayload rq) \<and> fd = rq_deviceId rq \<and> fa = rq_action rq
     \<and> ft = rq_type rq"
  by (auto simp: decode_def split: if_splits option.splits validation.splits)

lemma global_devices:
  assumes "scanDeviceGlobal rt s uid ep = (r, s')"
  shows "(devices s' = devices s \<and> (\<forall>d. r \<noteq> Success d))
    \<or> (\<exists>e payload device q. ep = Some (JStr e) \<and> e \<noteq> []
          \<and> decryptQRPayload rt (JStr e) = Some payload
          \<and> truthy payload \<and> validatePayload payload = Valid
          \<and> js_get payload ''uniqueCode'' = Some (JNum q)
          \<and> resolve_device_global rt s (js_get payload ''deviceId'') = Inr (Some device)
          \<and> or_zero (dev_lastUniqueCode device) < q
          \<and> devices s' = devices (save_lastUniqueCode device q s))"
proof (cases "\<exists>e payload. ep = Some (JStr e) \<and> e \<noteq> []
          \<and> decryptQRPayload rt (JStr e) = Some payload
          \<and> truthy payload \<and> validatePayload payload = Valid")
  case False
  with assms have "devices s' = devices s \<and> (\<forall>d. r \<noteq> Success d)"
    by (auto simp: scanDeviceGlobal_def
        split: option.splits json.splits if_splits validation.splits)
  then show ?thesis by simp
next
  case True
  then obtain e payload where e: "ep = Some (JStr e)" "e \<noteq> []"
      "decryptQRPayload rt (JStr e) = Some payload"
      "truthy payload" "validatePayload payload = Valid" by blast
  then obtain q where q: "js_get payload ''uniqueCode'' = Some (JNum q)"
    using valid_payload_uniqueCode by blast
  show ?thesis
    using assms e q
    by (auto simp: scanDeviceGlobal_def Let_def
        split: option.splits if_splits sum.splits
        dest!: replay_protection_cases award_global_devices)
qed

lemma scoped_devices:
  assumes "scanDevice rt s rq = (r, s')"
  shows "(devices s' = devices s
          \<and> (\<forall>d. r = Success d \<longrightarrow> \<not> truthy_opt (rq_encryptedPayload rq)))
    \<or> (\<exists>payload fd fa ft device q. decode rt rq = Inr (Some payload, fd, fa, ft)
          \<and> js_get payload ''uniqueCode'' = Some (JNum q)
          \<and> resolve_device_scoped rt s (rq_workspaceId rq) (rq_userId rq) fd = Inr device
          \<and> or_zero (dev_lastUniqueCode device) < q
          \<and> devices s' = devices (save_lastUniqueCode device q s))"
proof (cases "decode rt rq")
  case (Inl f)
  with assms show ?thesis by (auto simp: scanDevice_def)
next
  case (Inr t)
  obtain payload fd fa ft where t: "t = (payload, fd, fa, ft)" by (cases t)
  show ?thesis
  proof (cases payload)
    case None
    with Inr t have "\<not> truthy_opt (rq_encryptedPayload rq)" using decode_None by blast
    moreover have "devices s' = devices s"
      using assms Inr t None
      by (auto simp: scanDevice_def payload_uniqueCode_def replay_protection_def
          split: if_splits option.splits sum.splits dest!: award_scoped_devices)
    ultimately show ?thesis by simp
  next
    case (Some p)
    with Inr t have v: "validatePayload p = Valid" using decode_Some by blast
    then obtain q where q: "js_get p ''uniqueCode'' = Some (JNum q)"
      using valid_payload_uniqueCode by blast
    show ?thesis
      using assms Inr t Some q
      by (auto simp: scanDevice_def payload_uniqueCode_def
          split: if_splits option.splits sum.splits
          dest!: award_scoped_devices replay_protection_cases)
  qed
qed

lemma never_decreases_refl: "never_decreases ds ds"
  by (simp add: never_decreases_def list_all2_same)

lemma save_lastUniqueCode_mono:
  assumes "distinct (map dev_id (devices s))" "device \<in> set (devices s)"
    "or_zero (dev_lastUniqueCode device) < q"
  shows "never_decreases (devices s) (devices (save_lastUniqueCode device q s))"
proof -
  have inj: "inj_on dev_id (set (devices s))" using assms(1) by (simp add: distinct_map)
  have "\<forall>x \<in> set (devices s). dev_id x = dev_id device \<longrightarrow> x = device"
    using inj assms(2) by (auto dest: inj_onD)
  then show ?thesis using assms(3)
    by (auto simp: never_decreases_def save_lastUniqueCode_def list_all2_map2 list_all2_same or_zero_def)
qed

lemma global_monotone:
  assumes "distinct (map dev_id (devices s))" "scanDeviceGlobal rt s uid ep = (r, s')"
  shows "never_decreases (devices s) (devices s')"
proof -
  from global_devices [OF assms(2)]
  consider "devices s' = devices s"
    | payload device q where
      "resolve_device_global rt s (js_get payload ''deviceId'') = Inr (Some device)"
      "or_zero (dev_lastUniqueCode device) < q"
      "devices s' = devices (save_lastUniqueCode device q s)"
    by blast
  then show ?thesis
  proof cases
    case 1
    then show ?thesis by (simp add: never_decreases_refl)
  next
    case 2
    from 2(1) have "device \<in> set (devices s)" by (rule resolve_global_mem)
    with assms(1) 2(2) have "never_decreases (devices s) (devices (save_lastUniqueCode device q s))"
      by (simp add: save_lastUniqueCode_mono)
    with 2(3) show ?thesis by simp
  qed
qed

lemma scoped_monotone:
  assumes "distinct (map dev_id (devices s))" "scanDevice rt s rq = (r, s')"
  shows "never_decreases (devices s) (devices s')"
proof -
  from scoped_devices [OF assms(2)]
  consider "devices s' = devices s"
    | fd device q where
      "resolve_device_scoped rt s (rq_workspaceId rq) (rq_userId rq) fd = Inr device"
      "or_zero (dev_lastUniqueCode device) < q"
      "devices s' = devices (save_lastUniqueCode device q s)"
    by blast
  then show ?thesis
  proof cases
    case 1
    then show ?thesis by (simp add: never_decreases_refl)
  next
    case 2
    from 2(1) have "device \<in> set (devices s)" by (rule resolve_scoped_mem)
    with assms(1) 2(2) have "never_decreases (devices s) (devices (save_lastUniqueCode device q s))"
      by (simp add: save_lastUniqueCode_mono)
    with 2(3) show ?thesis by simp
  qed
qed

lemma devices_save_lastUniqueCode:
  "devices (save_lastUniqueCode device q s)
     = map (\<lambda>d. if dev_id d = dev_id device then d\<lparr>dev_lastUniqueCode := Some q\<rparr> else d)
         (devices s)"
  by (simp add: save_lastUniqueCode_def)

lemma global_accept:
  assumes "is_success (fst (scanDeviceGlobal rt s uid ep))"
  shows "\<exists>e payload device q. ep = Some (JStr e) \<and> decryptQRPayload rt (JStr e) = Some payload
          \<and> validatePayload payload = Valid
          \<and> js_get payload ''uniqueCode'' = Some (JNum q)
          \<and> resolve_device_global rt s (js_get payload ''deviceId'') = Inr (Some device)
          \<and> device \<in> set (devices s)
          \<and> or_zero (dev_lastUniqueCode device) < q
          \<and> devices (snd (scanDeviceGlobal rt s uid ep))
              = map (\<lambda>d. if dev_id d = dev_id device
                          then d\<lparr>dev_lastUniqueCode := Some q\<rparr> else d) (devices s)"
proof -
  obtain r s' where rs: "scanDeviceGlobal rt s uid ep = (r, s')"
    by (cases "scanDeviceGlobal rt s uid ep")
  with assms obtain d where "r = Success d" by (cases r) simp_all
  with global_devices [OF rs] rs show ?thesis
    by (auto simp: devices_save_lastUniqueCode dest: resolve_global_mem)
qed

lemma scoped_accept:
  assumes "is_success (fst (scanDevice rt s rq))" "truthy_opt (rq_encryptedPayload rq)"
  shows "\<exists>payload fd fa ft device q. decode rt rq = Inr (Some payload, fd, fa, ft)
          \<and> js_get payload ''uniqueCode'' = Some (JNum q)
          \<and> resolve_device_scoped rt s (rq_workspaceId rq) (rq_userId rq) fd = Inr device
          \<and> device \<in> set (devices s)
          \<and> or_zero (dev_lastUniqueCode device) < q
          \<and> devices (snd (scanDevice rt s rq))
              = map (\<lambda>d. if dev_id d = dev_id device
                          then d\<lparr>dev_lastUniqueCode := Some q\<rparr> else d) (devices s)"
proof -
  obtain r s' where rs: "scanDevice rt s rq = (r, s')" by (cases "scanDevice rt s rq")
  with assms obtain d where "r = Success d" by (cases r) simp_all
  with scoped_devices [OF rs] rs assms(2) show ?thesis
    by (auto simp: devices_save_lastUniqueCode dest: resolve_scoped_mem)
qed

text \<open>
  C1: a scan whose payload carries a \<^verbatim>\<open>uniqueCode\<close> not greater than the stored
  \<^verbatim>\<open>lastUniqueCode\<close> of the device it resolves to is rejected and leaves the store as it
  was (no points, no counters, no activity); once the action and membership gates are passed,
  the rejection is the replay error. This holds for \<^verbatim>\<open>scanDeviceGlobal\<close> and for
  \<^verbatim>\<open>scanDevice\<close>. Every accepted scan that carries a \<^verbatim>\<open>uniqueCode\<close> has a code strictly
  greater than the stored one, and afterwards the device list is the old one with that code as
  the \<^verbatim>\<open>lastUniqueCode\<close> of the scanned device; and whatever the outcome of a scan, every
  device is still there with a \<^verbatim>\<open>lastUniqueCode\<close> that is at least its old one.
\<close>

theorem replay_rejected_and_code_monotone:
  "(e \<noteq> [] \<and> decryptQRPayload rt (JStr e) = Some payload \<and> truthy payload
      \<and> validatePayload payload = Valid \<and> js_get payload ''uniqueCode'' = Some (JNum q)
      \<and> resolve_device_global rt s (js_get payload ''deviceId'') = Inr (Some device)
      \<and> q \<le> or_zero (dev_lastUniqueCode device)
    \<longrightarrow> (\<exists>f. scanDeviceGlobal rt s uid (Some (JStr e)) = (Fail f, s))
        \<and> (js_get payload ''action'' = Some (JStr ''SCAN'')
             \<and> find_membership s (dev_workspaceId device) uid \<noteq> None
           \<longrightarrow> scanDeviceGlobal rt s uid (Some (JStr e)) = (Fail ReplayDetected, s)))
   \<and> (decode rt rq = Inr (Some payload', fd, fa, ft)
      \<and> js_get payload' ''uniqueCode'' = Some (JNum q')
      \<and> resolve_device_scoped rt s (rq_workspaceId rq) (rq_userId rq) fd = Inr device'
      \<and> q' \<le> or_zero (dev_lastUniqueCode device')
    \<longrightarrow> (\<exists>f. scanDevice rt s rq = (Fail f, s))
        \<and> (fa = Some (JStr ''SCAN'')
             \<and> find_membership s (rq_workspaceId rq) (rq_userId rq) \<noteq> None
           \<longrightarrow> scanDevice rt s rq = (Fail ReplayDetected, s)))
   \<and> (is_success (fst (scanDeviceGlobal rt2 s2 uid2 ep2))
    \<longrightarrow> (\<exists>e payload device q. ep2 = Some (JStr e)
          \<and> decryptQRPayload rt2 (JStr e) = Some payload
          \<and> validatePayload payload = Valid
          \<and> js_get payload ''uniqueCode'' = Some (JNum q)
          \<and> resolve_device_global rt2 s2 (js_get payload ''deviceId'') = Inr (Some device)
          \<and> device \<in> set (devices s2)
          \<and> or_zero (dev_lastUniqueCode device) < q
          \<and> devices (snd (scanDeviceGlobal rt2 s2 uid2 ep2))
              = map (\<lambda>d. if dev_id d = dev_id device
                          then d\<lparr>dev_lastUniqueCode := Some q\<rparr> else d) (devices s2)))
   \<and> (is_success (fst (scanDevice rt2 s2 rq2)) \<and> truthy_opt (rq_encryptedPayload rq2)
    \<longrightarrow> (\<exists>payload fd fa ft device q. decode rt2 rq2 = Inr (Some payload, fd, fa, ft)
          \<and> js_get payload ''uniqueCode'' = Some (JNum q)
          \<and> resolve_device_scoped rt2 s2 (rq_workspaceId rq2) (rq_userId rq2) fd = Inr device
          \<and> device \<in> set (devices s2)
          \<and> or_zero (dev_lastUniqueCode device) < q
          \<and> devices (snd (scanDevice rt2 s2 rq2))
              = map (\<lambda>d. if dev_id d = dev_id device
                          then d\<lparr>dev_lastUniqueCode := Some q\<rparr> else d) (devices s2)))
   \<and> (distinct (map dev_id (devices s2))
    \<longrightarrow> list_all2 (\<lambda>d d'. dev_id d' = dev_id d
                     \<and> or_zero (dev_lastUniqueCode d) \<le> or_zero (dev_lastUniqueCode d'))
          (devices s2) (devices (snd (scanDeviceGlobal rt2 s2 uid2 ep2)))
        \<and> list_all2 (\<lambda>d d'. dev_id d' = dev_id d
                     \<and> or_zero (dev_lastUniqueCode d) \<le> or_zero (dev_lastUniqueCode d'))
          (devices s2) (devices (snd (scanDevice rt2 s2 rq2))))"
proof -
  have 1: "e \<noteq> [] \<and> decryptQRPayload rt (JStr e) = Some payload \<and> truthy payload
      \<and> validatePayload payload = Valid \<and> js_get payload ''uniqueCode'' = Some (JNum q)
      \<and> resolve_device_global rt s (js_get payload ''deviceId'') = Inr (Some device)
      \<and> q \<le> or_zero (dev_lastUniqueCode device)
    \<longrightarrow> (\<exists>f. scanDeviceGlobal rt s uid (Some (JStr e)) = (Fail f, s))
        \<and> (js_get payload ''action'' = Some (JStr ''SCAN'')
             \<and> find_membership s (dev_workspaceId device) uid \<noteq> None
           \<longrightarrow> scanDeviceGlobal rt s uid (Some (JStr e)) = (Fail ReplayDetected, s))"
    by (intro impI, elim conjE, rule global_replay; assumption)
  have 2: "decode rt rq = Inr (Some payload', fd, fa, ft)
      \<and> js_get payload' ''uniqueCode'' = Some (JNum q')
      \<and> resolve_device_scoped rt s (rq_workspaceId rq) (rq_userId rq) fd = Inr device'
      \<and> q' \<le> or_zero (dev_lastUniqueCode device')
    \<longrightarrow> (\<exists>f. scanDevice rt s rq = (Fail f, s))
        \<and> (fa = Some (JStr ''SCAN'')
             \<and> find_membership s (rq_workspaceId rq) (rq_userId rq) \<noteq> None
           \<longrightarrow> scanDevice rt s rq = (Fail ReplayDetected, s))"
    by (intro impI, elim conjE, rule scoped_replay; assumption)
  have 3: "is_success (fst (scanDeviceGlobal rt2 s2 uid2 ep2))
    \<longrightarrow> (\<exists>e payload device q. ep2 = Some (JStr e)
          \<and> decryptQRPayload rt2 (JStr e) = Some payload
          \<and> validatePayload payload = Valid
          \<and> js_get payload ''uniqueCode'' = Some (JNum q)
          \<and> resolve_device_global rt2 s2 (js_get payload ''deviceId'') = Inr (Some device)
          \<and> device \<in> set (devices s2)
          \<and> or_zero (dev_lastUniqueCode device) < q
          \<and> devices (snd (scanDeviceGlobal rt2 s2 uid2 ep2))
              = map (\<lambda>d. if dev_id d = dev_id device
                          then d\<lparr>dev_lastUniqueCode := Some q\<rparr> else d) (devices s2))"
    by (intro impI, rule global_accept)
  have 4: "is_success (fst (scanDevice rt2 s2 rq2)) \<and> truthy_opt (rq_encryptedPayload rq2)
    \<longrightarrow> (\<exists>payload fd fa ft device q. decode rt2 rq2 = Inr (Some payload, fd, fa, ft)
          \<and> js_get payload ''uniqueCode'' = Some (JNum q)
          \<and> resolve_device_scoped rt2 s2 (rq_workspaceId rq2) (rq_userId rq2) fd = Inr device
          \<and> device \<in> set (devices s2)
          \<and> or_zero (dev_lastUniqueCode device) < q
          \<and> devices (snd (scanDevice rt2 s2 rq2))
              = map (\<lambda>d. if dev_id d = dev_id device
                          then d\<lparr>dev_lastUniqueCode := Some q\<rparr> else d) (devices s2))"
    by (intro impI, elim conjE, rule scoped_accept; assumption)
  have 5: "distinct (map dev_id (devices s2))
    \<longrightarrow> list_all2 (\<lambda>d d'. dev_id d' = dev_id d
                     \<and> or_zero (dev_lastUniqueCode d) \<le> or_zero (dev_lastUniqueCode d'))
          (devices s2) (devices (snd (scanDeviceGlobal rt2 s2 uid2 ep2)))
        \<and> list_all2 (\<lambda>d d'. dev_id d' = dev_id d
                     \<and> or_zero (dev_lastUniqueCode d) \<le> or_zero (dev_lastUniqueCode d'))
          (devices s2) (devices (snd (scanDevice rt2 s2 rq2)))"
    using global_monotone [of s2 rt2 uid2 ep2 "fst (scanDeviceGlobal rt2 s2 uid2 ep2)"
        "snd (scanDeviceGlobal rt2 s2 uid2 ep2)"]
      scoped_monotone [of s2 rt2 rq2 "fst (scanDevice rt2 s2 rq2)" "snd (scanDevice rt2 s2 rq2)"]
    by (simp add: never_decreases_def)
  from 1 2 3 4 5 show ?thesis by (intro conjI)
qed

theorem replay_rejected_and_code_monotone_witness:
  "scanDeviceGlobal (sample_rt (Some (sample_payload 1000))) sample_store ''u1''
       (Some (JStr ''AAAA'')) = (Fail ReplayDetected, sample_store)
   \<and> scanDevice (sample_rt (Some (sample_payload 1000))) sample_store (sample_encrypted ''u1'')
       = (Fail ReplayDetected, sample_store)
   \<and> is_success (fst (scanDeviceGlobal (sample_rt (Some (sample_payload 1001))) sample_store
         ''u1'' (Some (JStr ''AAAA''))))
   \<and> is_success (fst (scanDevice (sample_rt (Some (sample_payload 1001))) sample_store
         (sample_encrypted ''u1'')))
   \<and> devices (snd (scanDeviceGlobal (sample_rt (Some (sample_payload 1001))) sample_store
         ''u1'' (Some (JStr ''AAAA'')))) = [sample_device\<lparr>dev_lastUniqueCode := Some 1001\<rparr>]
   \<and> devices (snd (scanDevice (sample_rt (Some (sample_payload 1001))) sample_store
         (sample_encrypted ''u1''))) = [sample_device\<lparr>dev_lastUniqueCode := Some 1001\<rparr>]
   \<and> list_all2 (\<lambda>d d'. dev_id d' = dev_id d
                \<and> or_zero (dev_lastUniqueCode d) \<le> or_zero (dev_lastUniqueCode d'))
         (devices sample_store)
         (devices (snd (scanDeviceGlobal (sample_rt (Some (sample_payload 1001))) sample_store
            ''u1'' (Some (JStr ''AAAA'')))))
   \<and> list_all2 (\<lambda>d d'. dev_id d' = dev_id d
                \<and> or_zero (dev_lastUniqueCode d) \<le> or_zero (dev_lastUniqueCode d'))
         (devices sample_store)
         (devices (snd (scanDevice (sample_rt (Some (sample_payload 1001))) sample_store
            (sample_encrypted ''u1''))))"
proof -
  let ?rtR = "sample_rt (Some (sample_payload 1000))"
  let ?rtA = "sample_rt (Some (sample_payload 1001))"
  let ?fd = "Some (JStr ''BIN-004'')"
  let ?fa = "Some (JStr ''SCAN'')"
  let ?ft = "Some (JStr ''SMART_BIN'')"
  let ?upd = "\<lambda>device q. map (\<lambda>d. if dev_id d = dev_id device
      then d\<lparr>dev_lastUniqueCode := Some q\<rparr> else d) (devices sample_store)"
  note T = replay_rejected_and_code_monotone
    [where rt = ?rtR and e = "''AAAA''" and payload = "sample_payload 1000" and q = 1000
       and s = sample_store and device = sample_device and uid = "''u1''"
       and rq = "sample_encrypted ''u1''" and payload' = "sample_payload 1000"
       and fd = ?fd and fa = ?fa and ft = ?ft and q' = 1000 and device' = sample_device
       and ?rt2.0 = ?rtA and ?s2.0 = sample_store and ?uid2.0 = "''u1''"
       and ?ep2.0 = "Some (JStr ''AAAA'')" and ?rq2.0 = "sample_encrypted ''u1''"]
  have h1: "''AAAA'' \<noteq> []" by simp
  have h2: "decryptQRPayload ?rtR (JStr ''AAAA'') = Some (sample_payload 1000)" by code_simp
  have h3: "truthy (sample_payload 1000)" by code_simp
  have h4: "validatePayload (sample_payload 1000) = Valid" by code_simp
  have h5: "js_get (sample_payload 1000) ''uniqueCode'' = Some (JNum 1000)" by code_simp
  have h6: "resolve_device_global ?rtR sample_store (js_get (sample_payload 1000) ''deviceId'')
      = Inr (Some sample_device)" by code_simp
  have h7: "(1000::rat) \<le> or_zero (dev_lastUniqueCode sample_device)" by code_simp
  have h8: "js_get (sample_payload 1000) ''action'' = Some (JStr ''SCAN'')" by code_simp
  have h9: "find_membership sample_store (dev_workspaceId sample_device) ''u1'' \<noteq> None"
    by code_simp
  have g1: "decode ?rtR (sample_encrypted ''u1'') = Inr (Some (sample_payload 1000), ?fd, ?fa, ?ft)"
    by code_simp
  have g2: "resolve_device_scoped ?rtR sample_store (rq_workspaceId (sample_encrypted ''u1''))
      (rq_userId (sample_encrypted ''u1'')) ?fd = Inr sample_device" by code_simp
  have g3: "find_membership sample_store (rq_workspaceId (sample_encrypted ''u1''))
      (rq_userId (sample_encrypted ''u1'')) \<noteq> None" by code_simp
  have a1: "is_success (fst (scanDeviceGlobal ?rtA sample_store ''u1'' (Some (JStr ''AAAA''))))"
    by code_simp
  have a2: "is_success (fst (scanDevice ?rtA sample_store (sample_encrypted ''u1'')))"
    by code_simp
  have a3: "truthy_opt (rq_encryptedPayload (sample_encrypted ''u1''))" by code_simp
  have a4: "distinct (map dev_id (devices sample_store))" by code_simp
  have dA: "decryptQRPayload ?rtA x = Some (sample_payload 1001)" for x
    by (simp add: decryptQRPayload_def sample_rt_def)
  have cA: "js_get (sample_payload 1001) ''uniqueCode'' = Some (JNum 1001)" by code_simp
  have rA: "resolve_device_global ?rtA sample_store (js_get (sample_payload 1001) ''deviceId'')
      = Inr (Some sample_device)" by code_simp
  have gA: "decode ?rtA (sample_encrypted ''u1'') = Inr (Some (sample_payload 1001), ?fd, ?fa, ?ft)"
    by code_simp
  have sA: "resolve_device_scoped ?rtA sample_store (rq_workspaceId (sample_encrypted ''u1''))
      (rq_userId (sample_encrypted ''u1'')) ?fd = Inr sample_device" by code_simp
  have upd: "?upd sample_device 1001 = [sample_device\<lparr>dev_lastUniqueCode := Some 1001\<rparr>]"
    by (simp add: sample_store_def)
  from T h1 h2 h3 h4 h5 h6 h7 h8 h9
  have c1: "scanDeviceGlobal ?rtR sample_store ''u1'' (Some (JStr ''AAAA''))
      = (Fail ReplayDetected, sample_store)" by blast
  from T g1 h5 g2 h7 g3
  have c2: "scanDevice ?rtR sample_store (sample_encrypted ''u1'')
      = (Fail ReplayDetected, sample_store)" by blast
  from T a1 obtain e payload device q where o:
      "decryptQRPayload ?rtA (JStr e) = Some payload"
      "js_get payload ''uniqueCode'' = Some (JNum q)"
      "resolve_device_global ?rtA sample_store (js_get payload ''deviceId'') = Inr (Some device)"
      "devices (snd (scanDeviceGlobal ?rtA sample_store ''u1'' (Some (JStr ''AAAA''))))
         = ?upd device q"
    by blast
  from o(1) dA have p: "payload = sample_payload 1001" by simp
  from o(2) cA p have q: "q = 1001" by simp
  from o(3) rA p have d: "device = sample_device" by simp
  from o(4) have c3: "devices (snd (scanDeviceGlobal ?rtA sample_store ''u1'' (Some (JStr ''AAAA''))))
      = [sample_device\<lparr>dev_lastUniqueCode := Some 1001\<rparr>]"
    unfolding q d upd .
  from T a2 a3 obtain payload' fd' fa' ft' device' q' where o':
      "decode ?rtA (sample_encrypted ''u1'') = Inr (Some payload', fd', fa', ft')"
      "js_get payload' ''uniqueCode'' = Some (JNum q')"
      "resolve_device_scoped ?rtA sample_store (rq_workspaceId (sample_encrypted ''u1''))
         (rq_userId (sample_encrypted ''u1'')) fd' = Inr device'"
      "devices (snd (scanDevice ?rtA sample_store (sample_encrypted ''u1''))) = ?upd device' q'"
    by blast
  from o'(1) gA have p': "payload' = sample_payload 1001" "fd' = ?fd" by simp_all
  from o'(2) cA p' have q': "q' = 1001" by simp
  from o'(3) sA p' have d': "device' = sample_device" by simp
  from o'(4) have c4: "devices (snd (scanDevice ?rtA sample_store (sample_encrypted ''u1'')))
      = [sample_device\<lparr>dev_lastUniqueCode := Some 1001\<rparr>]"
    unfolding q' d' upd .
  from T a4
  have c5: "list_all2 (\<lambda>d d'. dev_id d' = dev_id d
                \<and> or_zero (dev_lastUniqueCode d) \<le> or_zero (dev_lastUniqueCode d'))
         (devices sample_store)
         (devices (snd (scanDeviceGlobal ?rtA sample_store ''u1'' (Some (JStr ''AAAA'')))))
    \<and> list_all2 (\<lambda>d d'. dev_id d' = dev_id d
                \<and> or_zero (dev_lastUniqueCode d) \<le> or_zero (dev_lastUniqueCode d'))
         (devices sample_store)
         (devices (snd (scanDevice ?rtA sample_store (sample_encrypted ''u1''))))" by blast
  from c1 c2 a1 a2 c3 c4 c5 show ?thesis by (intro conjI) simp_all
qed

lemma find_map_same:
  "find P xs = Some x \<Longrightarrow> (\<And>y. P (f y) = P y) \<Longrightarrow> find P (map f xs) = Some (f x)"
  by (induction xs) (auto split: if_splits)

lemma find_membership_save_member:
  assumes "find_membership s w u = Some m"
  shows "find_membership (save_member (m\<lparr>mem_points := p, mem_scanCount := c\<rparr>) s) w u
      = Some (m\<lparr>mem_points := p, mem_scanCount := c\<rparr>)"
proof -
  let ?f = "\<lambda>x. if mem_id x = mem_id m then x\<lparr>mem_points := p, mem_scanCount := c\<rparr> else x"
  have "find (\<lambda>m. mem_workspaceId m = w \<and> mem_userId m = u) (map ?f (members s)) = Some (?f m)"
    using assms unfolding find_membership_def by (rule find_map_same) simp
  then show ?thesis by (simp add: find_membership_def save_member_def cong: if_cong)
qed

lemma find_user_save_user:
  assumes "find_user s uid = Some u"
  shows "find_user (save_user (u\<lparr>usr_points := p, usr_scanCount := c\<rparr>) s) uid
      = Some (u\<lparr>usr_points := p, usr_scanCount := c\<rparr>)"
proof -
  let ?f = "\<lambda>x. if usr_id x = usr_id u then x\<lparr>usr_points := p, usr_scanCount := c\<rparr> else x"
  have "find (\<lambda>u. usr_id u = uid) (map ?f (users s)) = Some (?f u)"
    using assms unfolding find_user_def by (rule find_map_same) simp
  then show ?thesis by (simp add: find_user_def save_user_def cong: if_cong)
qed

lemma find_membership_save_user [simp]:
  "find_membership (save_user u s) w uid = find_membership s w uid"
  by (simp add: find_membership_def save_user_def)

lemma find_user_save_member [simp]: "find_user (save_member m s) uid = find_user s uid"
  by (simp add: find_user_def save_member_def)

lemma resolve_scoped_str_devices:
  assumes "devices s' = devices s"
    "resolve_device_scoped rt s w u (Some (JStr did)) = Inr device"
  shows "resolve_device_scoped rt' s' w u (Some (JStr did)) = Inr device"
  using assms
  by (auto simp: resolve_device_scoped_def deviceId_filter_def match_objectId_def
      split: option.splits if_splits)

lemma decode_legacy:
  "\<not> truthy_opt (rq_encryptedPayload rq) \<Longrightarrow>
     decode rt rq = Inr (None, rq_deviceId rq, rq_action rq, rq_type rq)"
  by (simp add: decode_def)

lemma activity_deviceType_plain:
  "ft = None \<or> (\<exists>t. ft = Some (JStr t)) \<Longrightarrow> \<exists>t. activity_deviceType rt ft device = Some t"
  by (auto simp: activity_deviceType_def cast_string_def)

lemma js_plus_exact: "0 \<le> a \<Longrightarrow> 0 \<le> b \<Longrightarrow> a + b \<le> 2 ^ 53 \<Longrightarrow> js_plus rt a b = a + b"
  by (simp add: js_plus_def)

lemma legacy_devices_unchanged:
  assumes "\<not> truthy_opt (rq_encryptedPayload rq)"
  shows "devices (snd (scanDevice rt s rq)) = devices s"
proof -
  obtain r s' where rs: "scanDevice rt s rq = (r, s')" by (cases "scanDevice rt s rq")
  from scoped_devices [OF rs] assms have "devices s' = devices s"
    by (auto dest: decode_Some)
  with rs show ?thesis by simp
qed

lemma find_map_fields:
  "(\<And>y. P (g y) = P y) \<Longrightarrow> find P (map g xs) = map_option g (find P xs)"
  by (induction xs) auto

lemma resolve_scoped_codes:
  "resolve_device_scoped rt
       (s\<lparr>devices := map (\<lambda>d. d\<lparr>dev_lastUniqueCode := c d\<rparr>) (devices s)\<rparr>) w u v
     = (case resolve_device_scoped rt s w u v of
          Inl f \<Rightarrow> Inl f
        | Inr d \<Rightarrow> Inr (d\<lparr>dev_lastUniqueCode := c d\<rparr>))"
  by (simp add: resolve_device_scoped_def find_map_fields find_workspace_def find_membership_def
      split: option.splits)

lemma award_scoped_response:
  "fst (award_scoped rt s2 w uid m u (d\<lparr>dev_lastUniqueCode := x\<rparr>) ft)
     = fst (award_scoped rt s1 w uid m u d ft)"
  by (simp add: award_scoped_def Let_def activity_deviceType_def scan_activity_def
      split: option.splits)

lemma legacy_response_ignores_codes:
  assumes "\<not> truthy_opt (rq_encryptedPayload rq)"
  shows "fst (scanDevice rt
            (s\<lparr>devices := map (\<lambda>d. d\<lparr>dev_lastUniqueCode := c d\<rparr>) (devices s)\<rparr>) rq)
     = fst (scanDevice rt s rq)"
  using assms
  by (simp add: scanDevice_def decode_legacy payload_uniqueCode_def replay_protection_def
      resolve_scoped_codes find_membership_def find_user_def award_scoped_response
      split: option.splits sum.splits)

lemma legacy_step:
  assumes "\<not> truthy_opt (rq_encryptedPayload rq)" "rq_action rq = Some (JStr ''SCAN'')"
    "rq_deviceId rq = Some (JStr did)" "rq_type rq = None \<or> (\<exists>t. rq_type rq = Some (JStr t))"
    "find_membership s (rq_workspaceId rq) (rq_userId rq) = Some m"
    "resolve_device_scoped rt0 s (rq_workspaceId rq) (rq_userId rq) (Some (JStr did)) = Inr device"
    "find_user s (rq_userId rq) = Some u"
    "0 \<le> mem_points m" "0 \<le> mem_scanCount m" "0 \<le> usr_points u" "0 \<le> usr_scanCount u"
    "mem_points m + 10 \<le> 2 ^ 53" "mem_scanCount m + 1 \<le> 2 ^ 53"
    "usr_points u + 10 \<le> 2 ^ 53" "usr_scanCount u + 1 \<le> 2 ^ 53"
  shows "\<exists>d s' a. scanDevice rt s rq = (Success d, s') \<and> sd_pointsEarned d = 10
     \<and> devices s' = devices s
     \<and> find_membership s' (rq_workspaceId rq) (rq_userId rq)
         = Some (m\<lparr>mem_points := mem_points m + 10, mem_scanCount := mem_scanCount m + 1\<rparr>)
     \<and> find_user s' (rq_userId rq)
         = Some (u\<lparr>usr_points := usr_points u + 10, usr_scanCount := usr_scanCount u + 1\<rparr>)
     \<and> activities s' = activities s @ [a] \<and> act_type a = ''SCAN'' \<and> act_points a = 10
     \<and> act_workspaceId a = rq_workspaceId rq \<and> act_userId a = rq_userId rq
     \<and> act_deviceId a = Some (dev_id device)"
proof -
  from assms(4) obtain t where t: "activity_deviceType rt (rq_type rq) device = Some t"
    using activity_deviceType_plain by blast
  have r: "resolve_device_scoped rt s (rq_workspaceId rq) (rq_userId rq) (Some (JStr did)) = Inr device"
    using assms(6) by (rule resolve_scoped_str_devices [OF refl])
  let ?m' = "m\<lparr>mem_points := mem_points m + 10, mem_scanCount := mem_scanCount m + 1\<rparr>"
  let ?u' = "u\<lparr>usr_points := usr_points u + 10, usr_scanCount := usr_scanCount u + 1\<rparr>"
  let ?s2 = "save_user ?u' (save_member ?m' s)"
  let ?a = "scan_activity rt (rq_workspaceId rq) (rq_userId rq) device t"
  have p: "js_plus rt (mem_points m) 10 = mem_points m + 10"
      "js_plus rt (mem_scanCount m) 1 = mem_scanCount m + 1"
      "js_plus rt (usr_points u) 10 = usr_points u + 10"
      "js_plus rt (usr_scanCount u) 1 = usr_scanCount u + 1"
    using assms(8-15) by (simp_all add: js_plus_exact)
  have v: "valid_member ?m'" using assms(8,9) by (simp add: valid_member_def)
  have fm: "find_membership ?s2 (rq_workspaceId rq) (rq_userId rq) = Some ?m'"
    using find_membership_save_member [OF assms(5)] by simp
  have fu: "find_user ?s2 (rq_userId rq) = Some ?u'"
    using find_user_save_user [of "save_member ?m' s" "rq_userId rq" u] assms(7) by simp
  have "\<exists>d. scanDevice rt s rq = (Success d, ?s2\<lparr>activities := activities ?s2 @ [?a]\<rparr>)
      \<and> sd_pointsEarned d = 10"
    using assms(1,2,3,5,7) r t v
    by (simp add: scanDevice_def decode_legacy action_in_enum_def payload_uniqueCode_def
        replay_protection_def award_scoped_def Let_def p)
  moreover have "devices (?s2\<lparr>activities := activities ?s2 @ [?a]\<rparr>) = devices s" by simp
  moreover have "find_membership (?s2\<lparr>activities := activities ?s2 @ [?a]\<rparr>) (rq_workspaceId rq) (rq_userId rq) = Some ?m'"
    using fm by (simp add: find_membership_def)
  moreover have "find_user (?s2\<lparr>activities := activities ?s2 @ [?a]\<rparr>) (rq_userId rq) = Some ?u'"
    using fu by (simp add: find_user_def)
  moreover have "activities (?s2\<lparr>activities := activities ?s2 @ [?a]\<rparr>) = activities s @ [?a]"
    by (simp add: save_user_def save_member_def)
  moreover have "act_type ?a = ''SCAN'' \<and> act_points ?a = 10
      \<and> act_workspaceId ?a = rq_workspaceId rq \<and> act_userId ?a = rq_userId rq
      \<and> act_deviceId ?a = Some (dev_id device)" by (simp add: scan_activity_def)
  ultimately show ?thesis by blast
qed

lemma legacy_repeat:
  assumes "\<not> truthy_opt (rq_encryptedPayload rq)"
    and "rq_action rq = Some (JStr ''SCAN'')"
    and "rq_deviceId rq = Some (JStr did)"
    and "rq_type rq = None \<or> (\<exists>t. rq_type rq = Some (JStr t))"
    and "find_membership s (rq_workspaceId rq) (rq_userId rq) = Some m"
    and "resolve_device_scoped rt0 s (rq_workspaceId rq) (rq_userId rq) (Some (JStr did)) = Inr device"
    and "find_user s (rq_userId rq) = Some u"
    and "0 \<le> mem_points m" "0 \<le> mem_scanCount m" "0 \<le> usr_points u" "0 \<le> usr_scanCount u"
    and "mem_points m + 10 * int (length rts) \<le> 2 ^ 53"
    and "mem_scanCount m + int (length rts) \<le> 2 ^ 53"
    and "usr_points u + 10 * int (length rts) \<le> 2 ^ 53"
    and "usr_scanCount u + int (length rts) \<le> 2 ^ 53"
  shows "map points_earned (fst (scan_repeatedly rts s rq)) = replicate (length rts) (Some 10)
    \<and> devices (snd (scan_repeatedly rts s rq)) = devices s
    \<and> find_membership (snd (scan_repeatedly rts s rq)) (rq_workspaceId rq) (rq_userId rq)
        = Some (m\<lparr>mem_points := mem_points m + 10 * int (length rts),
                   mem_scanCount := mem_scanCount m + int (length rts)\<rparr>)
    \<and> find_user (snd (scan_repeatedly rts s rq)) (rq_userId rq)
        = Some (u\<lparr>usr_points := usr_points u + 10 * int (length rts),
                   usr_scanCount := usr_scanCount u + int (length rts)\<rparr>)
    \<and> (\<exists>new. activities (snd (scan_repeatedly rts s rq)) = activities s @ new
          \<and> length new = length rts
          \<and> list_all (\<lambda>a. act_type a = ''SCAN'' \<and> act_points a = 10
                  \<and> act_workspaceId a = rq_workspaceId rq \<and> act_userId a = rq_userId rq
                  \<and> act_deviceId a = Some (dev_id device)) new)"
  using assms(5-15)
proof (induction rts arbitrary: s m u)
  case Nil
  then show ?case by simp
next
  case (Cons rt rts)
  let ?m' = "m\<lparr>mem_points := mem_points m + 10, mem_scanCount := mem_scanCount m + 1\<rparr>"
  let ?u' = "u\<lparr>usr_points := usr_points u + 10, usr_scanCount := usr_scanCount u + 1\<rparr>"
  let ?ok = "\<lambda>a. act_type a = ''SCAN'' \<and> act_points a = 10
                  \<and> act_workspaceId a = rq_workspaceId rq \<and> act_userId a = rq_userId rq
                  \<and> act_deviceId a = Some (dev_id device)"
  have b1: "mem_points m + 10 \<le> 2 ^ 53" "mem_scanCount m + 1 \<le> 2 ^ 53"
      "usr_points u + 10 \<le> 2 ^ 53" "usr_scanCount u + 1 \<le> 2 ^ 53"
    using Cons.prems(8-11) by simp_all
  from legacy_step [OF assms(1-4) Cons.prems(1-7) b1, of rt]
  obtain d s1 a where step: "scanDevice rt s rq = (Success d, s1)" "sd_pointsEarned d = 10"
      "devices s1 = devices s"
      "find_membership s1 (rq_workspaceId rq) (rq_userId rq) = Some ?m'"
      "find_user s1 (rq_userId rq) = Some ?u'"
      "activities s1 = activities s @ [a]" "?ok a"
    by blast
  have r1: "resolve_device_scoped rt0 s1 (rq_workspaceId rq) (rq_userId rq) (Some (JStr did))
      = Inr device"
    using step(3) Cons.prems(2) by (rule resolve_scoped_str_devices)
  have b2: "0 \<le> mem_points ?m'" "0 \<le> mem_scanCount ?m'" "0 \<le> usr_points ?u'"
      "0 \<le> usr_scanCount ?u'"
      "mem_points ?m' + 10 * int (length rts) \<le> 2 ^ 53"
      "mem_scanCount ?m' + int (length rts) \<le> 2 ^ 53"
      "usr_points ?u' + 10 * int (length rts) \<le> 2 ^ 53"
      "usr_scanCount ?u' + int (length rts) \<le> 2 ^ 53"
    using Cons.prems(4-11) by simp_all
  note IH = Cons.IH [OF step(4) r1 step(5) b2]
  from IH obtain new where new: "activities (snd (scan_repeatedly rts s1 rq)) = activities s1 @ new"
      "length new = length rts" "list_all ?ok new"
    by blast
  have unfold: "scan_repeatedly (rt # rts) s rq
      = (Success d # fst (scan_repeatedly rts s1 rq), snd (scan_repeatedly rts s1 rq))"
    using step(1) by (simp split: prod.splits)
  have acts: "\<exists>new'. activities (snd (scan_repeatedly rts s1 rq)) = activities s @ new'
      \<and> length new' = length (rt # rts) \<and> list_all ?ok new'"
    using new step(6,7) by (intro exI [of _ "a # new"]) simp
  from IH have i1: "map points_earned (fst (scan_repeatedly rts s1 rq))
        = replicate (length rts) (Some 10)"
    and i2: "devices (snd (scan_repeatedly rts s1 rq)) = devices s1"
    and i3: "find_membership (snd (scan_repeatedly rts s1 rq)) (rq_workspaceId rq) (rq_userId rq)
        = Some (?m'\<lparr>mem_points := mem_points ?m' + 10 * int (length rts),
                   mem_scanCount := mem_scanCount ?m' + int (length rts)\<rparr>)"
    and i5: "find_user (snd (scan_repeatedly rts s1 rq)) (rq_userId rq)
        = Some (?u'\<lparr>usr_points := usr_points ?u' + 10 * int (length rts),
                   usr_scanCount := usr_scanCount ?u' + int (length rts)\<rparr>)"
    by blast+
  have c1: "map points_earned (Success d # fst (scan_repeatedly rts s1 rq))
      = replicate (length (rt # rts)) (Some 10)"
    using i1 step(2) by simp
  have c2: "devices (snd (scan_repeatedly rts s1 rq)) = devices s"
    using i2 step(3) by simp
  have c3: "?m'\<lparr>mem_points := mem_points ?m' + 10 * int (length rts),
                   mem_scanCount := mem_scanCount ?m' + int (length rts)\<rparr>
      = m\<lparr>mem_points := mem_points m + 10 * int (length (rt # rts)),
                   mem_scanCount := mem_scanCount m + int (length (rt # rts))\<rparr>"
    by simp
  have c5: "?u'\<lparr>usr_points := usr_points ?u' + 10 * int (length rts),
                   usr_scanCount := usr_scanCount ?u' + int (length rts)\<rparr>
      = u\<lparr>usr_points := usr_points u + 10 * int (length (rt # rts)),
                   usr_scanCount := usr_scanCount u + int (length (rt # rts))\<rparr>"
    by simp
  show ?case unfolding unfold fst_conv snd_conv
    using c1 c2 i3 [unfolded c3] i5 [unfolded c5] acts by (intro conjI)
qed

lemma resolve_scoped_by_deviceId:
  "find (\<lambda>d. dev_deviceId d = Some (js_trim did) \<and> dev_workspaceId d = w) (devices s)
     = Some device
   \<Longrightarrow> resolve_device_scoped rt s w u (Some (JStr did)) = Inr device"
  by (simp add: resolve_device_scoped_def deviceId_filter_def)

text \<open>
  C6: a workspace-scoped scan in the legacy plain form (no \<^verbatim>\<open>encryptedPayload\<close>, plain
  \<^verbatim>\<open>deviceId\<close>, \<^verbatim>\<open>action\<close> and \<^verbatim>\<open>type\<close>) skips the replay step. Whatever its
  outcome, it leaves every device as it was, and its response is the same whatever the stored
  \<^verbatim>\<open>lastUniqueCode\<close> values are. The \<^verbatim>\<open>SCAN\<close> request of a member whose user record
  exists, for a device of the workspace, with counters in the range of the schema and below
  \<open>2 ^ 53\<close>, succeeds every time it is submitted: each time it earns 10 points and one scan
  for the membership and for the user and appends one \<^verbatim>\<open>SCAN\<close> activity of 10 points.
\<close>

theorem legacy_scan_skips_replay_protection:
  assumes "\<not> truthy_opt (rq_encryptedPayload rq)"
  shows "devices (snd (scanDevice rt s' rq)) = devices s'
    \<and> fst (scanDevice rt
             (s'\<lparr>devices := map (\<lambda>d. d\<lparr>dev_lastUniqueCode := c d\<rparr>) (devices s')\<rparr>) rq)
        = fst (scanDevice rt s' rq)
    \<and> (rq_action rq = Some (JStr ''SCAN'') \<and> rq_deviceId rq = Some (JStr did)
        \<and> (rq_type rq = None \<or> (\<exists>t. rq_type rq = Some (JStr t)))
        \<and> find (\<lambda>x. mem_workspaceId x = rq_workspaceId rq \<and> mem_userId x = rq_userId rq)
              (members s) = Some m
        \<and> find (\<lambda>d. dev_deviceId d = Some (js_trim did)
                      \<and> dev_workspaceId d = rq_workspaceId rq) (devices s) = Some device
        \<and> find (\<lambda>x. usr_id x = rq_userId rq) (users s) = Some u
        \<and> 0 \<le> mem_points m \<and> 0 \<le> mem_scanCount m
        \<and> 0 \<le> usr_points u \<and> 0 \<le> usr_scanCount u
        \<and> mem_points m + 10 * int (length rts) \<le> 2 ^ 53
        \<and> mem_scanCount m + int (length rts) \<le> 2 ^ 53
        \<and> usr_points u + 10 * int (length rts) \<le> 2 ^ 53
        \<and> usr_scanCount u + int (length rts) \<le> 2 ^ 53
      \<longrightarrow> map points_earned (fst (scan_repeatedly rts s rq)) = replicate (length rts) (Some 10)
        \<and> devices (snd (scan_repeatedly rts s rq)) = devices s
        \<and> find (\<lambda>x. mem_workspaceId x = rq_workspaceId rq \<and> mem_userId x = rq_userId rq)
              (members (snd (scan_repeatedly rts s rq)))
            = Some (m\<lparr>mem_points := mem_points m + 10 * int (length rts),
                       mem_scanCount := mem_scanCount m + int (length rts)\<rparr>)
        \<and> find (\<lambda>x. usr_id x = rq_userId rq) (users (snd (scan_repeatedly rts s rq)))
            = Some (u\<lparr>usr_points := usr_points u + 10 * int (length rts),
                       usr_scanCount := usr_scanCount u + int (length rts)\<rparr>)
        \<and> (\<exists>new. activities (snd (scan_repeatedly rts s rq)) = activities s @ new
              \<and> length new = length rts
              \<and> list_all (\<lambda>a. act_type a = ''SCAN'' \<and> act_points a = 10
                      \<and> act_workspaceId a = rq_workspaceId rq \<and> act_userId a = rq_userId rq
                      \<and> act_deviceId a = Some (dev_id device)) new))"
proof (intro conjI impI)
  show "devices (snd (scanDevice rt s' rq)) = devices s'"
    using assms by (rule legacy_devices_unchanged)
  show "fst (scanDevice rt
             (s'\<lparr>devices := map (\<lambda>d. d\<lparr>dev_lastUniqueCode := c d\<rparr>) (devices s')\<rparr>) rq)
        = fst (scanDevice rt s' rq)"
    using assms by (rule legacy_response_ignores_codes)
next
  assume h: "rq_action rq = Some (JStr ''SCAN'') \<and> rq_deviceId rq = Some (JStr did)
        \<and> (rq_type rq = None \<or> (\<exists>t. rq_type rq = Some (JStr t)))
        \<and> find (\<lambda>x. mem_workspaceId x = rq_workspaceId rq \<and> mem_userId x = rq_userId rq)
              (members s) = Some m
        \<and> find (\<lambda>d. dev_deviceId d = Some (js_trim did)
                      \<and> dev_workspaceId d = rq_workspaceId rq) (devices s) = Some device
        \<and> find (\<lambda>x. usr_id x = rq_userId rq) (users s) = Some u
        \<and> 0 \<le> mem_points m \<and> 0 \<le> mem_scanCount m
        \<and> 0 \<le> usr_points u \<and> 0 \<le> usr_scanCount u
        \<and> mem_points m + 10 * int (length rts) \<le> 2 ^ 53
        \<and> mem_scanCount m + int (length rts) \<le> 2 ^ 53
        \<and> usr_points u + 10 * int (length rts) \<le> 2 ^ 53
        \<and> usr_scanCount u + int (length rts) \<le> 2 ^ 53"
  then have fm: "find_membership s (rq_workspaceId rq) (rq_userId rq) = Some m"
    and fu: "find_user s (rq_userId rq) = Some u"
    by (simp_all add: find_membership_def find_user_def)
  from h have r: "resolve_device_scoped rt s (rq_workspaceId rq) (rq_userId rq) (Some (JStr did))
      = Inr device"
    by (simp add: resolve_scoped_by_deviceId)
  from h have a: "rq_action rq = Some (JStr ''SCAN'')" "rq_deviceId rq = Some (JStr did)"
      "rq_type rq = None \<or> (\<exists>t. rq_type rq = Some (JStr t))"
    and b: "0 \<le> mem_points m" "0 \<le> mem_scanCount m" "0 \<le> usr_points u" "0 \<le> usr_scanCount u"
      "mem_points m + 10 * int (length rts) \<le> 2 ^ 53"
      "mem_scanCount m + int (length rts) \<le> 2 ^ 53"
      "usr_points u + 10 * int (length rts) \<le> 2 ^ 53"
      "usr_scanCount u + int (length rts) \<le> 2 ^ 53"
    by blast+
  note L = legacy_repeat [OF assms a fm r fu b, unfolded find_membership_def find_user_def]
  from L show "map points_earned (fst (scan_repeatedly rts s rq)) = replicate (length rts) (Some 10)"
    by blast
  from L show "devices (snd (scan_repeatedly rts s rq)) = devices s" by blast
  from L show "find (\<lambda>x. mem_workspaceId x = rq_workspaceId rq \<and> mem_userId x = rq_userId rq)
              (members (snd (scan_repeatedly rts s rq)))
            = Some (m\<lparr>mem_points := mem_points m + 10 * int (length rts),
                       mem_scanCount := mem_scanCount m + int (length rts)\<rparr>)" by blast
  from L show "find (\<lambda>x. usr_id x = rq_userId rq) (users (snd (scan_repeatedly rts s rq)))
            = Some (u\<lparr>usr_points := usr_points u + 10 * int (length rts),
                       usr_scanCount := usr_scanCount u + int (length rts)\<rparr>)" by blast
  from L show "\<exists>new. activities (snd (scan_repeatedly rts s rq)) = activities s @ new
              \<and> length new = length rts
              \<and> list_all (\<lambda>a. act_type a = ''SCAN'' \<and> act_points a = 10
                      \<and> act_workspaceId a = rq_workspaceId rq \<and> act_userId a = rq_userId rq
                      \<and> act_deviceId a = Some (dev_id device)) new" by blast
qed

theorem legacy_scan_skips_replay_protection_witness:
  "map points_earned (fst (scan_repeatedly [sample_rt None, sample_rt None] sample_store
       (sample_legacy ''BIN-004'' ''u1''))) = [Some 10, Some 10]
   \<and> devices (snd (scan_repeatedly [sample_rt None, sample_rt None] sample_store
       (sample_legacy ''BIN-004'' ''u1''))) = devices sample_store
   \<and> find (\<lambda>x. mem_workspaceId x = ''w1'' \<and> mem_userId x = ''u1'')
         (members (snd (scan_repeatedly [sample_rt None, sample_rt None] sample_store
            (sample_legacy ''BIN-004'' ''u1''))))
       = Some (sample_member\<lparr>mem_points := 70, mem_scanCount := 7\<rparr>)
   \<and> find (\<lambda>x. usr_id x = ''u1'')
         (users (snd (scan_repeatedly [sample_rt None, sample_rt None] sample_store
            (sample_legacy ''BIN-004'' ''u1''))))
       = Some (sample_user\<lparr>usr_points := 90, usr_scanCount := 9\<rparr>)
   \<and> length (activities (snd (scan_repeatedly [sample_rt None, sample_rt None] sample_store
         (sample_legacy ''BIN-004'' ''u1'')))) = 2"
proof -
  let ?rq = "sample_legacy ''BIN-004'' ''u1''"
  let ?rts = "[sample_rt None, sample_rt None]"
  have h0: "\<not> truthy_opt (rq_encryptedPayload ?rq)" by code_simp
  have w: "rq_workspaceId ?rq = ''w1''" "rq_userId ?rq = ''u1''"
    by (simp_all add: sample_legacy_def)
  have h1: "rq_action ?rq = Some (JStr ''SCAN'')" by code_simp
  have h2: "rq_deviceId ?rq = Some (JStr ''BIN-004'')" by code_simp
  have h3: "rq_type ?rq = None \<or> (\<exists>t. rq_type ?rq = Some (JStr t))"
    by (simp add: sample_legacy_def)
  have h4: "find (\<lambda>x. mem_workspaceId x = rq_workspaceId ?rq \<and> mem_userId x = rq_userId ?rq)
      (members sample_store) = Some sample_member" by code_simp
  have h5: "find (\<lambda>d. dev_deviceId d = Some (js_trim ''BIN-004'')
      \<and> dev_workspaceId d = rq_workspaceId ?rq) (devices sample_store) = Some sample_device"
    by code_simp
  have h6: "find (\<lambda>x. usr_id x = rq_userId ?rq) (users sample_store) = Some sample_user"
    by code_simp
  have h7: "0 \<le> mem_points sample_member \<and> 0 \<le> mem_scanCount sample_member
      \<and> 0 \<le> usr_points sample_user \<and> 0 \<le> usr_scanCount sample_user
      \<and> mem_points sample_member + 10 * int (length ?rts) \<le> 2 ^ 53
      \<and> mem_scanCount sample_member + int (length ?rts) \<le> 2 ^ 53
      \<and> usr_points sample_user + 10 * int (length ?rts) \<le> 2 ^ 53
      \<and> usr_scanCount sample_user + int (length ?rts) \<le> 2 ^ 53"
    by (simp add: sample_member_def sample_user_def)
  have v: "mem_points sample_member + 10 * int (length ?rts) = 70"
      "mem_scanCount sample_member + int (length ?rts) = 7"
      "usr_points sample_user + 10 * int (length ?rts) = 90"
      "usr_scanCount sample_user + int (length ?rts) = 9"
    by (simp_all add: sample_member_def sample_user_def)
  note T = legacy_scan_skips_replay_protection [OF h0, where did = "''BIN-004''"
      and s = sample_store and m = sample_member and device = sample_device
      and u = sample_user and rts = ?rts]
  from T h1 h2 h3 h4 h5 h6 h7
  have c: "map points_earned (fst (scan_repeatedly ?rts sample_store ?rq))
        = replicate (length ?rts) (Some 10)
    \<and> devices (snd (scan_repeatedly ?rts sample_store ?rq)) = devices sample_store
    \<and> find (\<lambda>x. mem_workspaceId x = rq_workspaceId ?rq \<and> mem_userId x = rq_userId ?rq)
          (members (snd (scan_repeatedly ?rts sample_store ?rq)))
        = Some (sample_member\<lparr>mem_points := mem_points sample_member + 10 * int (length ?rts),
             mem_scanCount := mem_scanCount sample_member + int (length ?rts)\<rparr>)
    \<and> find (\<lambda>x. usr_id x = rq_userId ?rq) (users (snd (scan_repeatedly ?rts sample_store ?rq)))
        = Some (sample_user\<lparr>usr_points := usr_points sample_user + 10 * int (length ?rts),
             usr_scanCount := usr_scanCount sample_user + int (length ?rts)\<rparr>)
    \<and> (\<exists>new. activities (snd (scan_repeatedly ?rts sample_store ?rq))
            = activities sample_store @ new \<and> length new = length ?rts
          \<and> list_all (\<lambda>a. act_type a = ''SCAN'' \<and> act_points a = 10
                  \<and> act_workspaceId a = rq_workspaceId ?rq \<and> act_userId a = rq_userId ?rq
                  \<and> act_deviceId a = Some (dev_id sample_device)) new)"
    by blast
  then obtain new where n: "activities (snd (scan_repeatedly ?rts sample_store ?rq))
      = activities sample_store @ new" "length new = length ?rts" by blast
  have e: "activities sample_store = []" by (simp add: sample_store_def)
  from n e have l: "length (activities (snd (scan_repeatedly ?rts sample_store ?rq))) = 2"
    by simp
  from c l show ?thesis unfolding v w by simp
qed






text \<open>
  C10, as the claim states it, fails: a request that fails decryption and a request that fails
  the replay check receive different messages.
\<close>

theorem replay_and_decryption_messages_differ_example:
  "fst (scanDevice (sample_rt None) sample_store (sample_encrypted ''u1'')) = Fail DecryptionFailed
   \<and> fst (scanDevice (sample_rt (Some (sample_payload 1000))) sample_store (sample_encrypted ''u1''))
       = Fail ReplayDetected
   \<and> response_message (\<lambda>v. [])
         (fst (scanDevice (sample_rt None) sample_store (sample_encrypted ''u1'')))
       \<noteq> response_message (\<lambda>v. [])
         (fst (scanDevice (sample_rt (Some (sample_payload 1000))) sample_store
            (sample_encrypted ''u1'')))"
  by code_simp

lemma decode_failure_reported:
  "decode rt rq = Inl f \<Longrightarrow> scanDevice rt s rq = (Fail f, s)"
  by (simp add: scanDevice_def)

text \<open>
  C10, amended: the responses to a decryption failure and to a detected replay are distinct.
  Both have status 400; the decryption failure carries the error \<^verbatim>\<open>Decryption failed\<close>
  and an English message, the replay the error \<^verbatim>\<open>QR code sudah dipakai\<close> and an
  Indonesian message saying that the code was already scanned, so the caller can tell a stale
  code from an undecryptable one.
\<close>

theorem replay_and_decryption_responses_distinct:
  assumes "decode rt1 rq1 = Inl DecryptionFailed"
    and "fst (scanDevice rt2 s2 rq2) = Fail ReplayDetected"
  shows "response_error show (fst (scanDevice rt1 s1 rq1)) = Some ''Decryption failed''
    \<and> response_message show (fst (scanDevice rt1 s1 rq1))
        = Some ''Invalid or corrupted QR code. Please try scanning again.''
    \<and> response_error show (fst (scanDevice rt2 s2 rq2)) = Some ''QR code sudah dipakai''
    \<and> response_message show (fst (scanDevice rt2 s2 rq2))
        = Some ''QR code ini sudah pernah di-scan. Tunggu QR code baru dari mesin.''
    \<and> response_status (fst (scanDevice rt1 s1 rq1)) = 400
    \<and> response_status (fst (scanDevice rt2 s2 rq2)) = 400
    \<and> response_error show (fst (scanDevice rt1 s1 rq1))
        \<noteq> response_error show (fst (scanDevice rt2 s2 rq2))
    \<and> response_message show (fst (scanDevice rt1 s1 rq1))
        \<noteq> response_message show (fst (scanDevice rt2 s2 rq2))"
  using decode_failure_reported [OF assms(1), of s1] assms(2)
  by (simp add: response_error_def response_message_def response_status_def)

theorem replay_and_decryption_responses_distinct_witness:
  "response_error (\<lambda>v. [])
      (fst (scanDevice (sample_rt None) sample_store (sample_encrypted ''u1'')))
     = Some ''Decryption failed''
   \<and> response_error (\<lambda>v. [])
      (fst (scanDevice (sample_rt (Some (sample_payload 1000))) sample_store
         (sample_encrypted ''u1''))) = Some ''QR code sudah dipakai''"
proof -
  have h1: "decode (sample_rt None) (sample_encrypted ''u1'') = Inl DecryptionFailed"
    by code_simp
  have h2: "fst (scanDevice (sample_rt (Some (sample_payload 1000))) sample_store
      (sample_encrypted ''u1'')) = Fail ReplayDetected" by code_simp
  from replay_and_decryption_responses_distinct [OF h1 h2, of "\<lambda>v. []" sample_store]
  show ?thesis by simp
qed

section \<open>Activity queries and export\<close>

text \<open>
  C4 at a \<^verbatim>\<open>since\<close> that is the creation instant of an activity: the query returns that
  activity, although its creation time is not strictly greater than \<^verbatim>\<open>since\<close>.
\<close>

theorem since_instant_is_included:
  "getActivities sample_cal (\<lambda>n. None) sample_log ''w1'' ''u1'' None (Some ''1970-01-01T00:00:05Z'')
     = Inr [sample_activity ''a1'' ''u1'' 5000]
   \<and> cal_newDate sample_cal ''1970-01-01T00:00:05Z'' = Some 5000
   \<and> \<not> (5000 < act_createdAt (sample_activity ''a1'' ''u1'' 5000))"
  by code_simp

lemma export_filter_eq:
  "(if str_truthy f then v = f else True) = (case f of None \<Rightarrow> True | Some x \<Rightarrow> x = [] \<or> v = Some x)"
  by (auto simp: str_truthy_def split: option.splits)

lemma export_lower_eq:
  "effectiveStart (export_start cal rq) fl
     = (case ex_startDate rq of
          None \<Rightarrow> fl
        | Some x \<Rightarrow> if x = [] then fl
                   else (case cal_newDate cal x of None \<Rightarrow> fl | Some t \<Rightarrow> max t fl))"
  by (auto simp: effectiveStart_def export_start_def str_truthy_def split: option.splits)

lemma export_end_eq:
  "export_end cal now rq
     = map_option (cal_endOfDay cal)
         (case ex_endDate rq of
            None \<Rightarrow> Some now
          | Some x \<Rightarrow> if x = [] then Some now else cal_newDate cal x)"
  by (auto simp: export_end_def str_truthy_def split: option.splits)

text \<open>
  C9: a member's \<^verbatim>\<open>MY_ACTIVITY\<close> export with a valid end date returns, newest first and
  at most 10000, exactly the caller's activities of the workspace that pass the type filters
  and were created between the effective lower bound and the end of the end day. The lower
  bound is the maximum of the requested start and the floor \<^verbatim>\<open>thirtyDaysAgo\<close> (the clock
  after \<^verbatim>\<open>setDate(getDate() - 30)\<close>), and the floor itself when the request has no valid
  start: a start before the floor is no error, and every returned row was created at or after
  the floor.
\<close>

theorem my_activity_export_clamped:
  assumes "find (\<lambda>m. mem_workspaceId m = w \<and> mem_userId m = uid) (members s) \<noteq> None"
    and "ex_ownership rq = Some ''MY_ACTIVITY''"
    and "(case ex_endDate rq of
            None \<Rightarrow> Some now
          | Some x \<Rightarrow> if x = [] then Some now else cal_newDate cal x) = Some e"
    and "fl = cal_minusDays cal now 30"
    and "lower = (case ex_startDate rq of
                    None \<Rightarrow> fl
                  | Some x \<Rightarrow> if x = [] then fl
                             else (case cal_newDate cal x of None \<Rightarrow> fl | Some t \<Rightarrow> max t fl))"
    and "rows = take 10000 (sort_key (\<lambda>a. - act_createdAt a)
           (filter (\<lambda>a. act_workspaceId a = w \<and> act_userId a = uid
                \<and> lower \<le> act_createdAt a \<and> act_createdAt a \<le> cal_endOfDay cal e
                \<and> (case ex_deviceType rq of
                       None \<Rightarrow> True | Some x \<Rightarrow> x = [] \<or> act_deviceType a = Some x)
                \<and> (case ex_activityType rq of
                       None \<Rightarrow> True | Some x \<Rightarrow> x = [] \<or> Some (act_type a) = Some x))
              (activities s)))"
  shows "exportActivities cal now s coll w uid rq = Inr (map RawRow rows)
    \<and> fl \<le> lower
    \<and> list_all (\<lambda>a. fl \<le> act_createdAt a) rows"
proof -
  from assms(1) obtain m where m: "find_membership s w uid = Some m"
    by (auto simp: find_membership_def)
  have en: "export_end cal now rq = Some (cal_endOfDay cal e)"
    using assms(3) by (simp add: export_end_eq)
  have lo: "effectiveStart (export_start cal rq) (cal_minusDays cal now 30) = lower"
    unfolding assms(5) assms(4) by (rule export_lower_eq)
  have rw: "my_activity_rows s w uid rq lower (cal_endOfDay cal e) = rows"
    unfolding assms(6) my_activity_rows_def newest_first_def export_filter_eq ..
  have 1: "exportActivities cal now s coll w uid rq = Inr (map RawRow rows)"
    using m assms(2) en lo rw by (simp add: exportActivities_def Let_def)
  have 2: "fl \<le> lower"
    unfolding assms(5) by (auto split: option.splits)
  have "list_all (\<lambda>a. lower \<le> act_createdAt a) rows"
    unfolding assms(6) by (auto simp: list_all_iff dest!: in_set_takeD)
  with 2 have 3: "list_all (\<lambda>a. fl \<le> act_createdAt a) rows"
    by (auto simp: list_all_iff)
  from 1 2 3 show ?thesis by (intro conjI)
qed

theorem my_activity_export_clamped_witness:
  "cal_newDate sample_cal ''1970-01-01'' = Some 5000
   \<and> cal_minusDays sample_cal 5184000000 30 = 2592000000
   \<and> exportActivities sample_cal 5184000000 sample_log2 [] ''w1'' ''u1'' sample_export
       = Inr [RawRow (sample_activity ''a2'' ''u1'' 3000000000)]"
proof -
  let ?rows = "take 10000 (sort_key (\<lambda>a. - act_createdAt a)
           (filter (\<lambda>a. act_workspaceId a = ''w1'' \<and> act_userId a = ''u1''
                \<and> 2592000000 \<le> act_createdAt a
                \<and> act_createdAt a \<le> cal_endOfDay sample_cal 5184000000
                \<and> (case ex_deviceType sample_export of
                       None \<Rightarrow> True | Some x \<Rightarrow> x = [] \<or> act_deviceType a = Some x)
                \<and> (case ex_activityType sample_export of
                       None \<Rightarrow> True | Some x \<Rightarrow> x = [] \<or> Some (act_type a) = Some x))
              (activities sample_log2)))"
  have h1: "find (\<lambda>m. mem_workspaceId m = ''w1'' \<and> mem_userId m = ''u1'') (members sample_log2)
      \<noteq> None" by code_simp
  have h2: "ex_ownership sample_export = Some ''MY_ACTIVITY''" by code_simp
  have h3: "(case ex_endDate sample_export of
            None \<Rightarrow> Some 5184000000
          | Some x \<Rightarrow> if x = [] then Some 5184000000 else cal_newDate sample_cal x)
      = Some 5184000000" by code_simp
  have h4: "(2592000000::int) = cal_minusDays sample_cal 5184000000 30" by code_simp
  have h5: "(2592000000::int) = (case ex_startDate sample_export of
                    None \<Rightarrow> 2592000000
                  | Some x \<Rightarrow> if x = [] then 2592000000
                             else (case cal_newDate sample_cal x of
                                     None \<Rightarrow> 2592000000 | Some t \<Rightarrow> max t 2592000000))"
    by code_simp
  have n: "cal_newDate sample_cal ''1970-01-01'' = Some 5000" by code_simp
  have r: "?rows = [sample_activity ''a2'' ''u1'' 3000000000]" by code_simp
  from my_activity_export_clamped [OF h1 h2 h3 h4 h5 refl, of "[]"]
  have "exportActivities sample_cal 5184000000 sample_log2 [] ''w1'' ''u1'' sample_export
      = Inr (map RawRow ?rows)" by blast
  with r have "exportActivities sample_cal 5184000000 sample_log2 [] ''w1'' ''u1'' sample_export
      = Inr [RawRow (sample_activity ''a2'' ''u1'' 3000000000)]" by simp
  with n h4 show ?thesis by simp
qed


end
